theory Spec2Isabelle
  imports Complex_Main "HOL-Library.AList" "HOL-Library.Multiset"
begin

section \<open>JavaScript strings\<close>

text \<open>
  The converters are JavaScript and TypeScript. A string is modelled as a \<open>char list\<close>
  of ASCII code units: the classes below are the ASCII part of JavaScript's \<open>\s\<close>,
  \<open>\d\<close>, \<open>\w\<close>, \<open>toLowerCase\<close> and \<open>toUpperCase\<close>; every other character is an
  ordinary one that is no letter, no digit and no white space.
\<close>

definition bslash :: char where
  "bslash = CHR 0x5C"

definition dquote :: char where
  "dquote = CHR 0x22"

definition newline :: char where
  "newline = CHR 0x0A"

definition isSpace :: "char \<Rightarrow> bool" where
  "isSpace c = (c \<in> set [CHR '' '', CHR 0x09, CHR 0x0A, CHR 0x0B, CHR 0x0C, CHR 0x0D])"

definition digits :: string where
  "digits = ''0123456789''"

definition lowerLetters :: string where
  "lowerLetters = ''abcdefghijklmnopqrstuvwxyz''"

definition upperLetters :: string where
  "upperLetters = ''ABCDEFGHIJKLMNOPQRSTUVWXYZ''"

definition isDigit :: "char \<Rightarrow> bool" where
  "isDigit c = (c \<in> set digits)"

definition isLower :: "char \<Rightarrow> bool" where
  "isLower c = (c \<in> set lowerLetters)"

definition isUpper :: "char \<Rightarrow> bool" where
  "isUpper c = (c \<in> set upperLetters)"

definition isAlpha :: "char \<Rightarrow> bool" where
  "isAlpha c = (isLower c \<or> isUpper c)"

definition isAlnum :: "char \<Rightarrow> bool" where
  "isAlnum c = (isAlpha c \<or> isDigit c)"

text \<open>\<open>\w\<close>: a letter, a digit or the underscore.\<close>

definition isWord :: "char \<Rightarrow> bool" where
  "isWord c = (isAlnum c \<or> c = CHR ''_'')"

definition lowerChar :: "char \<Rightarrow> char" where
  "lowerChar c = (case map_of (zip upperLetters lowerLetters) c of Some l \<Rightarrow> l | None \<Rightarrow> c)"

definition upperChar :: "char \<Rightarrow> char" where
  "upperChar c = (case map_of (zip lowerLetters upperLetters) c of Some u \<Rightarrow> u | None \<Rightarrow> c)"

definition toLowerCase :: "string \<Rightarrow> string" where
  "toLowerCase s = map lowerChar s"

definition toUpperCase :: "string \<Rightarrow> string" where
  "toUpperCase s = map upperChar s"

text \<open>\<open>s.trim()\<close>\<close>

definition trim :: "string \<Rightarrow> string" where
  "trim s = rev (dropWhile isSpace (rev (dropWhile isSpace s)))"

text \<open>\<open>s.includes(p)\<close>: \<open>p\<close> occurs in \<open>s\<close> as a contiguous substring.\<close>

fun startsWith :: "string \<Rightarrow> string \<Rightarrow> bool" where
  "startsWith s [] = True"
| "startsWith [] (p # ps) = False"
| "startsWith (c # cs) (p # ps) = (c = p \<and> startsWith cs ps)"

fun strIncludes :: "string \<Rightarrow> string \<Rightarrow> bool" where
  "strIncludes [] p = (p = [])"
| "strIncludes (c # cs) p = (startsWith (c # cs) p \<or> strIncludes cs p)"

text \<open>\<open>xs.join(sep)\<close>\<close>

fun join :: "string \<Rightarrow> string list \<Rightarrow> string" where
  "join sep [] = []"
| "join sep [x] = x"
| "join sep (x # y # ys) = x @ sep @ join sep (y # ys)"

text \<open>
  \<open>s.split(/\s+/)\<close>: the pieces between maximal runs of white space. A string that
  starts (ends) with white space gets an empty first (last) piece, and the empty string
  splits into one empty piece. The flag says that the scan is inside a run.
\<close>

fun splitWsFrom :: "bool \<Rightarrow> string \<Rightarrow> string \<Rightarrow> string list" where
  "splitWsFrom inRun cur [] = [rev cur]"
| "splitWsFrom inRun cur (c # cs) =
     (if isSpace c then
        (if inRun then splitWsFrom True cur cs else rev cur # splitWsFrom True [] cs)
      else splitWsFrom False (c # cur) cs)"

definition splitWs :: "string \<Rightarrow> string list" where
  "splitWs s = splitWsFrom False [] s"

text \<open>
  \<open>s.split(sep)\<close> for a non-empty separator string (the source only splits on
  \<open>","\<close>, \<open>" and "\<close> and \<open>"--"\<close>).
\<close>

function splitOnFrom :: "string \<Rightarrow> string \<Rightarrow> string \<Rightarrow> string list" where
  "splitOnFrom sep cur [] = [rev cur]"
| "splitOnFrom sep cur (c # cs) =
     (if startsWith (c # cs) sep
      then rev cur # splitOnFrom sep [] (drop (length sep - 1) cs)
      else splitOnFrom sep (c # cur) cs)"
  by pat_completeness auto
termination
  by (relation "measure (\<lambda>(sep, cur, s). length s)") auto

definition splitOn :: "string \<Rightarrow> string \<Rightarrow> string list" where
  "splitOn sep s = splitOnFrom sep [] s"

text \<open>\<open>s.replace(new RegExp('\\' + c, 'g'), r)\<close>: every occurrence of the one character.\<close>

definition replaceChar :: "char \<Rightarrow> string \<Rightarrow> string \<Rightarrow> string" where
  "replaceChar c r s = concat (map (\<lambda>x. if x = c then r else [x]) s)"

text \<open>\<open>s.replace(/\s+/g, ' ')\<close>: every maximal run of white space becomes one space.\<close>

fun collapseWsFrom :: "bool \<Rightarrow> string \<Rightarrow> string" where
  "collapseWsFrom inRun [] = []"
| "collapseWsFrom inRun (c # cs) =
     (if isSpace c then
        (if inRun then collapseWsFrom True cs else CHR '' '' # collapseWsFrom True cs)
      else c # collapseWsFrom False cs)"

definition collapseWs :: "string \<Rightarrow> string" where
  "collapseWs s = collapseWsFrom False s"

text \<open>The decimal numeral of a number, as a template literal prints an index.\<close>

definition digitChar :: "nat \<Rightarrow> char" where
  "digitChar d = digits ! (d mod 10)"

fun showNat :: "nat \<Rightarrow> string" where
  "showNat n = (if n < 10 then [digitChar n] else showNat (n div 10) @ [digitChar (n mod 10)])"

declare showNat.simps [simp del]

section \<open>LaTeX escaping\<close>

subsection \<open>ConversionEngine.escapeLatexCharacters\<close>

text \<open>
  One pass over the text: \<open>text.replace(/[&%$#_{}~^\\]/g, (char) => escapeMap[char] || char)\<close>.
  Each character is looked up in the table once, and what the table returns is not
  scanned again.
\<close>

definition escapeMap :: "(char \<times> string) list" where
  "escapeMap =
    [(CHR ''&'', bslash # ''&''),
     (CHR ''%'', bslash # ''%''),
     (CHR ''$'', bslash # ''$''),
     (CHR ''#'', bslash # ''#''),
     (CHR ''_'', bslash # ''_''),
     (CHR ''{'', bslash # ''{''),
     (CHR ''}'', bslash # ''}''),
     (CHR ''~'', bslash # ''textasciitilde{}''),
     (CHR ''^'', bslash # ''textasciicircum{}''),
     (bslash, bslash # ''textbackslash{}'')]"

definition escapeLatexCharacters :: "string \<Rightarrow> string" where
  "escapeLatexCharacters text =
     concat (map (\<lambda>c. case map_of escapeMap c of Some r \<Rightarrow> r | None \<Rightarrow> [c]) text)"

subsection \<open>XMLConverter.escapeLatex\<close>

text \<open>
  The converter's options (\<open>this.config\<close>), with the defaults of the constructor.
\<close>

record config =
  suppressWarnings :: bool
  extractStyledText :: bool
  useAcmStyle :: bool
  useStringDefinitions :: bool
  useBiblatexFields :: bool
  escapeLatexChars :: bool
  debugMode :: bool
  enableApiEnhancement :: bool

definition defaultConfig :: config where
  "defaultConfig =
     \<lparr>suppressWarnings = True, extractStyledText = True, useAcmStyle = False,
      useStringDefinitions = True, useBiblatexFields = False, escapeLatexChars = True,
      debugMode = True, enableApiEnhancement = True\<rparr>"

text \<open>
  \<open>this.latexSpecialChars\<close>, in the order \<open>Object.entries\<close> lists it (the order the
  keys are written in; none is an array index).
\<close>

definition latexSpecialChars :: "(char \<times> string) list" where
  "latexSpecialChars =
    [(CHR ''&'', bslash # ''&''),
     (CHR ''%'', bslash # ''%''),
     (CHR ''$'', bslash # ''$''),
     (CHR ''#'', bslash # ''#''),
     (CHR ''_'', bslash # ''_''),
     (CHR ''{'', bslash # ''{''),
     (CHR ''}'', bslash # ''}''),
     (CHR ''~'', bslash # ''textasciitilde{}''),
     (CHR ''^'', bslash # ''textasciicircum{}''),
     (bslash, bslash # ''textbackslash{}''),
     (CHR ''<'', bslash # ''textless{}''),
     (CHR ''>'', bslash # ''textgreater{}'')]"

text \<open>
  The loop \<open>for (const [char, replacement] of Object.entries(this.latexSpecialChars))\<close>
  rewrites the whole text once per table row, each time over the output of the
  rows before it.
\<close>

definition escapeLatex :: "config \<Rightarrow> string \<Rightarrow> string" where
  "escapeLatex cfg text =
     (if \<not> escapeLatexChars cfg \<or> text = [] then text
      else foldl (\<lambda>t (c, r). replaceChar c r t) text latexSpecialChars)"

section \<open>The DOM, as the converters see it\<close>

text \<open>
  Both converters read the parsed XML through the browser's DOM: \<open>querySelector\<close>,
  \<open>querySelectorAll\<close>, \<open>textContent\<close>, \<open>getAttribute\<close>, \<open>tagName\<close> and \<open>children\<close>.
  The selector engine is the platform's, not the repository's, so an element carries a
  table of what the engine answers: \<open>selections\<close> maps a selector string to the elements
  \<open>querySelectorAll\<close> returns for it, in document order; a selector that is not in
  the table matches nothing.
\<close>

datatype element =
  Element (tagName: string) (textContent: string) (attributes: "(string \<times> string) list")
    (children: "element list") (selections: "(string \<times> element list) list")

definition querySelectorAll :: "element \<Rightarrow> string \<Rightarrow> element list" where
  "querySelectorAll e sel = (case map_of (selections e) sel of Some es \<Rightarrow> es | None \<Rightarrow> [])"

definition querySelector :: "element \<Rightarrow> string \<Rightarrow> element option" where
  "querySelector e sel = (case querySelectorAll e sel of [] \<Rightarrow> None | x # xs \<Rightarrow> Some x)"

definition getAttribute :: "element \<Rightarrow> string \<Rightarrow> string option" where
  "getAttribute e a = map_of (attributes e) a"

text \<open>
  A document: its root element and what the engine answers for queries on the
  document itself.
\<close>

datatype document =
  Document (documentElement: element) (docSelections: "(string \<times> element list) list")

definition docQuerySelectorAll :: "document \<Rightarrow> string \<Rightarrow> element list" where
  "docQuerySelectorAll d sel = (case map_of (docSelections d) sel of Some es \<Rightarrow> es | None \<Rightarrow> [])"

definition docQuerySelector :: "document \<Rightarrow> string \<Rightarrow> element option" where
  "docQuerySelector d sel = (case docQuerySelectorAll d sel of [] \<Rightarrow> None | x # xs \<Rightarrow> Some x)"

text \<open>
  An exception, with its message. The engine throws on a selector it cannot parse; a
  \<open>selectorCheck\<close> is the platform's answer to "does this selector parse" (\<open>None\<close>:
  it does; \<open>Some m\<close>: the query throws with message \<open>m\<close>).
\<close>

datatype error = Error (message: string)

type_synonym selectorCheck = "string \<Rightarrow> string option"

section \<open>ConversionEngine\<close>

record conversionOptions =
  includeAbstract :: bool
  includeKeywords :: bool
  includeNotes :: bool
  preserveFormatting :: bool
  customFields :: "string list"
  citationStyle :: string
  optEscapeLatex :: bool
  optSuppressWarnings :: bool

subsection \<open>extractText\<close>

text \<open>
  The text of what was found: the first \<open>style\<close> descendant's if there is one (EndNote
  wraps text in \<open>style\<close> tags), the element's own otherwise, trimmed.
\<close>

definition styledText :: "element \<Rightarrow> string" where
  "styledText found =
     (case querySelector found ''style'' of
        Some styleContent \<Rightarrow> trim (textContent styleContent)
      | None \<Rightarrow> trim (textContent found))"

text \<open>
  The loop over the selector list. For each selector: the direct query, then
  \<open>*[name="selector"]\<close>, then \<open>*[field="selector"]\<close>; the first element found ends the
  loop, whatever its text.
\<close>

fun extractTextFrom :: "selectorCheck \<Rightarrow> element \<Rightarrow> string list \<Rightarrow> error + string" where
  "extractTextFrom chk e [] = Inr []"
| "extractTextFrom chk e (selector # rest) =
     (case chk selector of
        Some m \<Rightarrow> Inl (Error m)
      | None \<Rightarrow>
         (case querySelector e selector of
            Some found \<Rightarrow> Inr (styledText found)
          | None \<Rightarrow>
             (let byName = ''*[name='' @ dquote # selector @ dquote # '']'';
                  byField = ''*[field='' @ dquote # selector @ dquote # '']''
              in case chk byName of
                   Some m \<Rightarrow> Inl (Error m)
                 | None \<Rightarrow>
                    (case querySelector e byName of
                       Some found \<Rightarrow> Inr (styledText found)
                     | None \<Rightarrow>
                        (case chk byField of
                           Some m \<Rightarrow> Inl (Error m)
                         | None \<Rightarrow>
                            (case querySelector e byField of
                               Some found \<Rightarrow> Inr (styledText found)
                             | None \<Rightarrow> extractTextFrom chk e rest))))))"

definition selectorList :: "string \<Rightarrow> string list" where
  "selectorList selectors = map trim (splitOn '','' selectors)"

text \<open>
  \<open>extractText\<close> on one of the engine's own selector lists. Each of them is valid CSS, so
  no query throws and the check is the one that accepts everything.
\<close>

definition extractText :: "element \<Rightarrow> string \<Rightarrow> string" where
  "extractText e selectors =
     (case extractTextFrom (\<lambda>s. None) e (selectorList selectors) of
        Inr t \<Rightarrow> t
      | Inl err \<Rightarrow> [])"

text \<open>\<open>extractText\<close> on a selector list the user typed (a custom field).\<close>

definition extractTextCustom :: "selectorCheck \<Rightarrow> element \<Rightarrow> string \<Rightarrow> error + string" where
  "extractTextCustom chk e selectors = extractTextFrom chk e (selectorList selectors)"

subsection \<open>extractAuthors\<close>

definition authorNames :: "element list \<Rightarrow> string list" where
  "authorNames authors = filter (\<lambda>n. n \<noteq> []) (map styledText authors)"

definition authorSelectors :: "string list" where
  "authorSelectors =
     [''author, Author, authors, Authors'',
      ''creator, Creator'',
      ''contributor[type='' @ dquote # ''author'' @ dquote # '']'',
      ''*[name='' @ dquote # ''author'' @ dquote # ''], *[field='' @ dquote # ''author'' @ dquote # '']'']"

text \<open>
  \<open>singleAuthor.split(/[,;]|\band\b/)\<close>: a comma, a semicolon, or the word \<open>and\<close> with
  no word character on either side. \<open>prev\<close> is the character before the scan position.
\<close>

definition andAt :: "char option \<Rightarrow> string \<Rightarrow> bool" where
  "andAt prev s =
     ((case prev of None \<Rightarrow> True | Some p \<Rightarrow> \<not> isWord p) \<and> startsWith s ''and'' \<and>
      (case drop 3 s of [] \<Rightarrow> True | c # cs \<Rightarrow> \<not> isWord c))"

function splitAuthorsFrom :: "char option \<Rightarrow> string \<Rightarrow> string \<Rightarrow> string list" where
  "splitAuthorsFrom prev cur [] = [rev cur]"
| "splitAuthorsFrom prev cur (c # cs) =
     (if c = CHR '','' \<or> c = CHR '';'' then rev cur # splitAuthorsFrom (Some c) [] cs
      else if andAt prev (c # cs) then rev cur # splitAuthorsFrom (Some (CHR ''d'')) [] (drop 2 cs)
      else splitAuthorsFrom (Some c) (c # cur) cs)"
  by pat_completeness auto
termination
  by (relation "measure (\<lambda>(prev, cur, s). length s)") auto

fun firstNonEmpty :: "'a list list \<Rightarrow> 'a list" where
  "firstNonEmpty [] = []"
| "firstNonEmpty (x # xs) = (if x \<noteq> [] then x else firstNonEmpty xs)"

definition extractAuthors :: "element \<Rightarrow> string" where
  "extractAuthors e =
     (let authorsContainer =
            (case querySelector e ''contributors authors'' of
               Some c \<Rightarrow> Some c
             | None \<Rightarrow> querySelector e ''authors'');
          structured =
            (case authorsContainer of
               None \<Rightarrow> []
             | Some c \<Rightarrow> authorNames (querySelectorAll c ''author''))
      in if structured \<noteq> [] then join '' and '' structured
         else
          (let general = firstNonEmpty (map (\<lambda>sel. authorNames (querySelectorAll e sel)) authorSelectors)
           in if general \<noteq> [] then join '' and '' general
              else
               (let singleAuthor = extractText e ''author, Author, creator, Creator''
                in if singleAuthor \<noteq> []
                   then join '' and ''
                          (filter (\<lambda>n. n \<noteq> []) (map trim (splitAuthorsFrom None [] singleAuthor)))
                   else [])))"

subsection \<open>extractYear\<close>

text \<open>
  \<open>yearText.match(/\b(19|20)\d{2}\b/)\<close>: the first \<open>19dd\<close> or \<open>20dd\<close> with no word
  character before or after it.
\<close>

fun yearAt :: "string \<Rightarrow> bool" where
  "yearAt (a # b # c # d # rest) =
     ((a = CHR ''1'' \<and> b = CHR ''9'' \<or> a = CHR ''2'' \<and> b = CHR ''0'') \<and> isDigit c \<and> isDigit d \<and>
      (case rest of [] \<Rightarrow> True | r # rs \<Rightarrow> \<not> isWord r))"
| "yearAt s = False"

fun matchYearFrom :: "char option \<Rightarrow> string \<Rightarrow> string option" where
  "matchYearFrom prev [] = None"
| "matchYearFrom prev (c # cs) =
     (if (case prev of None \<Rightarrow> True | Some p \<Rightarrow> \<not> isWord p) \<and> yearAt (c # cs)
      then Some (take 4 (c # cs))
      else matchYearFrom (Some c) cs)"

definition extractYear :: "element \<Rightarrow> string" where
  "extractYear e =
     (let yearText = extractText e ''year, Year, date, Date, published, publication-date''
      in if yearText \<noteq> []
         then (case matchYearFrom None yearText of Some y \<Rightarrow> y | None \<Rightarrow> [])
         else [])"

subsection \<open>extractPages, extractKeywords\<close>

text \<open>
  \<open>pages.replace(/(\d+)-(\d+)/, "$1--$2")\<close>: the first hyphen that stands between two
  digits is doubled.
\<close>

fun doubleFirstHyphen :: "char option \<Rightarrow> string \<Rightarrow> string" where
  "doubleFirstHyphen prev [] = []"
| "doubleFirstHyphen prev (c # cs) =
     (if c = CHR ''-'' \<and> (case prev of None \<Rightarrow> False | Some p \<Rightarrow> isDigit p) \<and>
         (case cs of [] \<Rightarrow> False | d # ds \<Rightarrow> isDigit d)
      then ''--'' @ cs
      else c # doubleFirstHyphen (Some c) cs)"

definition enginePages :: "element \<Rightarrow> string" where
  "enginePages e =
     (let pages = extractText e ''pages, Pages, page, Page, page-range''
      in if pages \<noteq> [] then doubleFirstHyphen None pages else [])"

text \<open>\<open>keywords.split(/[,;]/)\<close>\<close>

fun splitCommaSemi :: "string \<Rightarrow> string \<Rightarrow> string list" where
  "splitCommaSemi cur [] = [rev cur]"
| "splitCommaSemi cur (c # cs) =
     (if c = CHR '','' \<or> c = CHR '';'' then rev cur # splitCommaSemi [] cs
      else splitCommaSemi (c # cur) cs)"

definition engineKeywords :: "element \<Rightarrow> string" where
  "engineKeywords e =
     (let keywords = extractText e ''keywords, Keywords, keyword, subject, tags''
      in if keywords \<noteq> []
         then join '', '' (filter (\<lambda>kw. kw \<noteq> []) (map trim (splitCommaSemi [] keywords)))
         else [])"

subsection \<open>determineBibTeXType\<close>

text \<open>
  The chain of tests on the lower-cased type field, in the order of the source. \<open>None\<close>:
  no test matched, and control falls through to the heuristic.
\<close>

definition explicitType :: "string \<Rightarrow> string option" where
  "explicitType ty =
     (if strIncludes ty ''article'' \<or> strIncludes ty ''journal'' then Some ''article''
      else if strIncludes ty ''book'' then Some ''book''
      else if strIncludes ty ''chapter'' \<or> strIncludes ty ''inbook'' then Some ''inbook''
      else if strIncludes ty ''conference'' \<or> strIncludes ty ''proceeding'' then Some ''inproceedings''
      else if strIncludes ty ''thesis'' \<or> strIncludes ty ''dissertation'' then Some ''phdthesis''
      else if strIncludes ty ''report'' \<or> strIncludes ty ''tech'' then Some ''techreport''
      else if strIncludes ty ''manual'' then Some ''manual''
      else if strIncludes ty ''web'' \<or> strIncludes ty ''online'' then Some ''misc''
      else None)"

text \<open>The heuristic on the fields that are present (a non-empty text is truthy).\<close>

definition heuristicType :: "string \<Rightarrow> string \<Rightarrow> string \<Rightarrow> string" where
  "heuristicType hasJournal hasBooktitle hasPublisher =
     (if hasJournal \<noteq> [] then ''article''
      else if hasBooktitle \<noteq> [] then ''inproceedings''
      else if hasPublisher \<noteq> [] then ''book''
      else ''misc'')"

text \<open>
  The decision as a function of the four texts it reads: the test \<open>if (typeField)\<close>
  guards the chain, and only a chain that matched returns.
\<close>

definition typeOf :: "string \<Rightarrow> string \<Rightarrow> string \<Rightarrow> string \<Rightarrow> string" where
  "typeOf typeField hasJournal hasBooktitle hasPublisher =
     (case (if typeField \<noteq> [] then explicitType (toLowerCase typeField) else None) of
        Some t \<Rightarrow> t
      | None \<Rightarrow> heuristicType hasJournal hasBooktitle hasPublisher)"

definition determineBibTeXType :: "element \<Rightarrow> string" where
  "determineBibTeXType e =
     typeOf (extractText e ''type, Type, publication-type, genre'')
       (extractText e ''journal, Journal'')
       (extractText e ''booktitle, book-title, container-title'')
       (extractText e ''publisher, Publisher'')"

subsection \<open>generateBibTeXKey\<close>

definition engineStopWords :: "string list" where
  "engineStopWords =
     [''the'', ''and'', ''or'', ''of'', ''in'', ''on'', ''at'', ''to'', ''for'', ''with'', ''by'']"

text \<open>
  The key as a function of the three texts it is built from and the record's number.
  \<open>split\<close> never returns an empty array, so \<open>[0]\<close> and \<open>[length - 1]\<close> exist.
\<close>

definition keyOf :: "string \<Rightarrow> string \<Rightarrow> string \<Rightarrow> nat \<Rightarrow> string" where
  "keyOf author year title refNumber =
     (let k1 = (if author \<noteq> []
                then (let firstAuthor = trim (hd (splitOn '' and '' author));
                          nameParts = splitWs firstAuthor
                      in filter isLower (toLowerCase (last nameParts)))
                else []);
          k2 = (if year \<noteq> [] then k1 @ year else k1);
          k3 = (if title \<noteq> [] \<and> length k2 < 10
                then (let titleWords =
                            filter (\<lambda>word. length word > 3 \<and> toLowerCase word \<notin> set engineStopWords)
                              (splitWs title)
                      in case titleWords of
                           [] \<Rightarrow> k2
                         | w # ws \<Rightarrow> k2 @ take 6 (filter isLower (toLowerCase w)))
                else k2)
      in if length k3 < 3 then ''ref'' @ showNat refNumber else k3)"

definition generateBibTeXKey :: "element \<Rightarrow> nat \<Rightarrow> string" where
  "generateBibTeXKey e refNumber =
     keyOf (extractAuthors e) (extractYear e) (extractText e ''title, Title'') refNumber"

subsection \<open>parseReference\<close>

text \<open>
  A reference is a JavaScript object with string properties: a map from property name to
  text. A property that was never assigned is \<open>None\<close>; it and the empty text are falsy.
\<close>

type_synonym reference = "string \<rightharpoonup> string"

definition truthy :: "string option \<Rightarrow> bool" where
  "truthy v = (case v of None \<Rightarrow> False | Some t \<Rightarrow> t \<noteq> [])"

text \<open>
  The custom fields, in order. A selector list that throws ends the whole
  \<open>parseReference\<close> call; a value that is empty leaves the reference as it is.
\<close>

fun addCustomFields :: "selectorCheck \<Rightarrow> element \<Rightarrow> string list \<Rightarrow> reference \<Rightarrow> error + reference" where
  "addCustomFields chk e [] r = Inr r"
| "addCustomFields chk e (fieldName # rest) r =
     (case extractTextCustom chk e fieldName of
        Inl err \<Rightarrow> Inl err
      | Inr v \<Rightarrow>
          addCustomFields chk e rest (if v \<noteq> [] then r(toLowerCase fieldName \<mapsto> v) else r))"

definition coreFields :: "element \<Rightarrow> nat \<Rightarrow> reference" where
  "coreFields e refNumber =
     [''id'' \<mapsto> generateBibTeXKey e refNumber,
      ''type'' \<mapsto> determineBibTeXType e,
      ''title'' \<mapsto> extractText e ''title, Title, TITLE'',
      ''author'' \<mapsto> extractAuthors e,
      ''year'' \<mapsto> extractYear e,
      ''journal'' \<mapsto> extractText e ''journal, Journal, publication, source'',
      ''volume'' \<mapsto> extractText e ''volume, Volume'',
      ''number'' \<mapsto> extractText e ''number, Number, issue, Issue'',
      ''pages'' \<mapsto> enginePages e,
      ''publisher'' \<mapsto> extractText e ''publisher, Publisher'',
      ''address'' \<mapsto> extractText e ''address, Address, location'',
      ''doi'' \<mapsto> extractText e ''doi, DOI, identifier[type=doi]'',
      ''url'' \<mapsto> extractText e ''url, URL, link, href'',
      ''isbn'' \<mapsto> extractText e ''isbn, ISBN'',
      ''issn'' \<mapsto> extractText e ''issn, ISSN'']"

definition optionalFields :: "element \<Rightarrow> conversionOptions \<Rightarrow> reference \<Rightarrow> reference" where
  "optionalFields e options r =
     (let r1 = (if includeAbstract options
                then r(''abstract'' \<mapsto> extractText e ''abstract, Abstract, summary'') else r);
          r2 = (if includeKeywords options then r1(''keywords'' \<mapsto> engineKeywords e) else r1)
      in if includeNotes options
         then r2(''note'' \<mapsto> extractText e ''note, Note, notes, comment'') else r2)"

text \<open>
  \<open>Inl\<close>: the call threw; \<open>Inr None\<close>: it returned \<open>null\<close>; \<open>Inr (Some r)\<close>: it returned
  the reference.
\<close>

definition parseReference ::
  "selectorCheck \<Rightarrow> element \<Rightarrow> conversionOptions \<Rightarrow> nat \<Rightarrow> error + reference option" where
  "parseReference chk e options refNumber =
     (case addCustomFields chk e (customFields options)
             (optionalFields e options (coreFields e refNumber)) of
        Inl err \<Rightarrow> Inl err
      | Inr r \<Rightarrow>
          if \<not> truthy (r ''title'') \<and> \<not> truthy (r ''author'') then Inr None else Inr (Some r))"

subsection \<open>extractReferences\<close>

text \<open>
  The loop \<open>entries.forEach((entry, index) => ...)\<close>, with the references and the warnings
  collected so far. \<open>index\<close> is the zero-based position of the first entry of the list.
\<close>

fun parseEntries ::
  "selectorCheck \<Rightarrow> conversionOptions \<Rightarrow> nat \<Rightarrow> element list \<Rightarrow> reference list \<times> string list
     \<Rightarrow> reference list \<times> string list" where
  "parseEntries chk options index [] acc = acc"
| "parseEntries chk options index (entry # rest) (references, warnings) =
     parseEntries chk options (index + 1) rest
       (case parseReference chk entry options (index + 1) of
          Inr (Some r) \<Rightarrow> (references @ [r], warnings)
        | Inr None \<Rightarrow> (references, warnings)
        | Inl err \<Rightarrow>
            (references,
             warnings @ [''Error parsing reference '' @ showNat (index + 1) @ '': '' @ message err]))"

text \<open>The record elements the engine works on, or none.\<close>

definition locateEntries :: "document \<Rightarrow> element list" where
  "locateEntries xmlDoc =
     (let entries = docQuerySelectorAll xmlDoc ''record, reference, citation, item''
      in if length entries = 0
         then docQuerySelectorAll xmlDoc ''*[title], *[author], *[journal]''
         else entries)"

definition extractReferences ::
  "selectorCheck \<Rightarrow> document \<Rightarrow> conversionOptions \<Rightarrow> string list \<Rightarrow> reference list \<times> string list" where
  "extractReferences chk xmlDoc options warnings =
     (let entries = locateEntries xmlDoc
      in if length entries = 0
         then ([], warnings @ [''No recognizable reference entries found in XML''])
         else parseEntries chk options 0 entries ([], warnings))"

section \<open>ExternalAPIManager\<close>

text \<open>
  A field set is a JavaScript object with string properties, in insertion order:
  assigning to a property that exists keeps its place, assigning to a new one appends it
  (\<open>AList.update\<close>). \<open>fields[key]\<close> is \<open>map_of fields key\<close>.
\<close>

type_synonym fields = "(string \<times> string) list"

text \<open>\<open>Object.assign(target, source)\<close>: the source's properties are assigned in turn.\<close>

definition objectAssign :: "fields \<Rightarrow> fields \<Rightarrow> fields" where
  "objectAssign target source = foldl (\<lambda>t (k, v). AList.update k v t) target source"

subsection \<open>findBestMatch\<close>

text \<open>
  Scores are IEEE doubles. The selection only compares them, with each other and with
  the literals \<open>0\<close> and \<open>0.7\<close>, and a double that is not NaN is a rational number, so a
  score is modelled as the rational it denotes and the literals as the rationals the
  doubles \<open>0.7\<close> and \<open>0.71\<close> denote. \<open>calculateMatchScore\<close> never returns NaN: its only
  divisions are by the size of a non-empty set and by a positive sum of weights. The
  function that scores a candidate is an argument of the selection, so that the one
  definition is both \<open>findBestMatch\<close> and \<open>findBestCrossrefMatch\<close>.
\<close>

definition double_0_7 :: rat where
  "double_0_7 = 3152519739159347 / 4503599627370496"


text \<open>
  The loop, with \<open>bestMatch\<close> and \<open>bestScore\<close> as they stand before the remaining
  results.
\<close>

fun bestOf :: "('a \<Rightarrow> rat) \<Rightarrow> 'a list \<Rightarrow> 'a option \<times> rat \<Rightarrow> 'a option \<times> rat" where
  "bestOf score [] best = best"
| "bestOf score (result # rest) (bestMatch, bestScore) =
     (if score result > bestScore then bestOf score rest (Some result, score result)
      else bestOf score rest (bestMatch, bestScore))"

definition findBestMatch :: "('a \<Rightarrow> rat) \<Rightarrow> 'a list \<Rightarrow> 'a option" where
  "findBestMatch score results =
     (case bestOf score results (None, 0) of
        (bestMatch, bestScore) \<Rightarrow> if bestScore > double_0_7 then bestMatch else None)"

subsection \<open>The providers' payloads\<close>

text \<open>
  A Semantic Scholar paper and a Crossref work, with the properties the manager reads.
  A missing string property is the empty text (both are falsy), a missing array or
  number is \<open>None\<close>. \<open>ssJournal\<close> is the \<open>name\<close> of the \<open>journal\<close> object.
\<close>

record ssPaper =
  ssTitle :: string
  ssAuthors :: "string list option"
  ssYear :: "nat option"
  ssJournal :: "string option"
  ssVenue :: string
  ssDoi :: string
  ssUrl :: string
  ssAbstract :: string
  ssCitationCount :: "nat option"

record crWork =
  crTitle :: "string list"
  crAuthor :: "(string \<times> string) list option"
  crPublishedPrint :: "nat option"
  crPublishedOnline :: "nat option"
  crContainerTitle :: "string list"
  crVolume :: string
  crIssue :: string
  crPage :: string
  crDOI :: string
  crURL :: string
  crAbstract :: string

text \<open>Setting a property when the test in front of it holds.\<close>

definition setIf :: "bool \<Rightarrow> string \<Rightarrow> string \<Rightarrow> fields \<Rightarrow> fields" where
  "setIf b k v enhanced = (if b then AList.update k v enhanced else enhanced)"

definition formatSemanticScholarResult :: "ssPaper \<Rightarrow> fields" where
  "formatSemanticScholarResult result =
     (let e1 = setIf (ssTitle result \<noteq> []) ''title'' (ssTitle result) [];
          e2 = (case ssAuthors result of
                  None \<Rightarrow> e1
                | Some as \<Rightarrow> setIf (length as > 0) ''author'' (join '' and '' as) e1);
          e3 = (case ssYear result of
                  None \<Rightarrow> e2
                | Some y \<Rightarrow> setIf (y \<noteq> 0) ''year'' (showNat y) e2);
          e4 = (case ssJournal result of
                  Some n \<Rightarrow> AList.update ''journal'' n e3
                | None \<Rightarrow> setIf (ssVenue result \<noteq> []) ''journal'' (ssVenue result) e3);
          e5 = setIf (ssDoi result \<noteq> []) ''doi'' (ssDoi result) e4;
          e6 = setIf (ssUrl result \<noteq> []) ''url'' (ssUrl result) e5;
          e7 = setIf (ssAbstract result \<noteq> []) ''abstract'' (ssAbstract result) e6
      in case ssCitationCount result of
           None \<Rightarrow> e7
         | Some n \<Rightarrow> AList.update ''note'' (''Cited by '' @ showNat n @ '' (Semantic Scholar)'') e7)"

text \<open>\<open>result.page.replace('-', '--')\<close>: the first hyphen is doubled.\<close>

fun replaceFirstHyphen :: "string \<Rightarrow> string" where
  "replaceFirstHyphen [] = []"
| "replaceFirstHyphen (c # cs) = (if c = CHR ''-'' then ''--'' @ cs else c # replaceFirstHyphen cs)"

definition crAuthorName :: "string \<times> string \<Rightarrow> string" where
  "crAuthorName a = fst a @ '' '' @ snd a"

definition formatCrossrefResult :: "crWork \<Rightarrow> fields" where
  "formatCrossrefResult result =
     (let e1 = (case crTitle result of [] \<Rightarrow> [] | t # ts \<Rightarrow> AList.update ''title'' t []);
          e2 = (case crAuthor result of
                  None \<Rightarrow> e1
                | Some as \<Rightarrow> setIf (length as > 0) ''author'' (join '' and '' (map crAuthorName as)) e1);
          e3 = (case crPublishedPrint result of
                  Some y \<Rightarrow> AList.update ''year'' (showNat y) e2
                | None \<Rightarrow>
                   (case crPublishedOnline result of
                      Some y \<Rightarrow> AList.update ''year'' (showNat y) e2
                    | None \<Rightarrow> e2));
          e4 = (case crContainerTitle result of [] \<Rightarrow> e3 | t # ts \<Rightarrow> AList.update ''journal'' t e3);
          e5 = setIf (crVolume result \<noteq> []) ''volume'' (crVolume result) e4;
          e6 = setIf (crIssue result \<noteq> []) ''number'' (crIssue result) e5;
          e7 = setIf (crPage result \<noteq> []) ''pages'' (replaceFirstHyphen (crPage result)) e6;
          e8 = setIf (crDOI result \<noteq> []) ''doi'' (crDOI result) e7;
          e9 = setIf (crURL result \<noteq> []) ''url'' (crURL result) e8
      in setIf (crAbstract result \<noteq> []) ''abstract'' (crAbstract result) e9)"

subsection \<open>calculateMatchScore\<close>

text \<open>
  The score is computed in double arithmetic. The model computes with the rationals that
  the doubles denote and takes the three operations that the source uses (\<open>*\<close>, \<open>+\<close> and
  \<open>/\<close>, each rounding its exact result to a double) as parameters. The weights are the
  rationals that the doubles \<open>0.6\<close>, \<open>0.3\<close> and \<open>0.1\<close> denote.
\<close>

record doubleOps =
  dmul :: "rat \<Rightarrow> rat \<Rightarrow> rat"
  dadd :: "rat \<Rightarrow> rat \<Rightarrow> rat"
  ddiv :: "rat \<Rightarrow> rat \<Rightarrow> rat"

definition double_0_6 :: rat where
  "double_0_6 = 5404319552844595 / 9007199254740992"

definition double_0_3 :: rat where
  "double_0_3 = 5404319552844595 / 18014398509481984"

definition double_0_1 :: rat where
  "double_0_1 = 3602879701896397 / 36028797018963968"

text \<open>
  The Jaccard similarity of the two sets of pieces. Only the sizes of the sets are read,
  so a set is a list without repetitions.
\<close>

definition calculateStringSimilarity :: "doubleOps \<Rightarrow> string \<Rightarrow> string \<Rightarrow> rat" where
  "calculateStringSimilarity ops str1 str2 =
     (let set1 = remdups (splitWs str1);
          set2 = remdups (splitWs str2);
          intersection = filter (\<lambda>x. x \<in> set set2) set1;
          unionSet = remdups (set1 @ set2)
      in ddiv ops (of_nat (length intersection)) (of_nat (length unionSet)))"

text \<open>
  \<open>parseInt(s)\<close>: white space is skipped, then an optional sign, then digits are read up
  to the first character that is none, hexadecimal ones after \<open>0x\<close> or \<open>0X\<close> and decimal
  ones otherwise. Without a digit the result is NaN, here \<open>None\<close>. Years and the numbers
  read here are integers below \<open>2^53\<close>, which doubles hold exactly.
\<close>

definition hexDigits :: string where
  "hexDigits = ''0123456789abcdef''"

definition parseDigits :: "string \<Rightarrow> string \<Rightarrow> int option" where
  "parseDigits ds s =
     (let run = takeWhile (\<lambda>c. lowerChar c \<in> set ds) s
      in if run = [] then None
         else Some (foldl (\<lambda>n c. int (length ds) * n + int (length (takeWhile (\<lambda>d. d \<noteq> lowerChar c) ds))) 0 run))"

definition parseInt :: "string \<Rightarrow> int option" where
  "parseInt s =
     (let t = dropWhile isSpace s;
          u = (if startsWith t ''-'' \<or> startsWith t ''+'' then tl t else t);
          n = (if startsWith u ''0x'' \<or> startsWith u ''0X'' then parseDigits hexDigits (drop 2 u)
               else parseDigits digits u)
      in case n of
           None \<Rightarrow> None
         | Some v \<Rightarrow> Some (if startsWith t ''-'' then - v else v))"

text \<open>\<open>Math.abs(year - parseInt(targetYear)) <= 1 ? 1 : 0\<close>; a comparison with NaN is false.\<close>

definition yearMatch :: "nat \<Rightarrow> string \<Rightarrow> rat" where
  "yearMatch y targetYear =
     (case parseInt targetYear of
        None \<Rightarrow> 0
      | Some v \<Rightarrow> if \<bar>int y - v\<bar> \<le> 1 then 1 else 0)"

text \<open>
  One of the three blocks, on the pair of \<open>score\<close> and \<open>factors\<close>:
  \<open>score += sim * weight; factors += weight\<close>.
\<close>

definition weigh :: "doubleOps \<Rightarrow> rat \<Rightarrow> rat \<Rightarrow> rat \<times> rat \<Rightarrow> rat \<times> rat" where
  "weigh ops sim weight acc =
     (dadd ops (fst acc) (dmul ops sim weight), dadd ops (snd acc) weight)"

text \<open>\<open>factors > 0 ? score / factors : 0\<close>\<close>

definition normalized :: "doubleOps \<Rightarrow> rat \<times> rat \<Rightarrow> rat" where
  "normalized ops acc = (if snd acc > 0 then ddiv ops (fst acc) (snd acc) else 0)"

text \<open>
  A block is skipped when the candidate or the record lacks its datum. An array of
  authors is truthy also when it is empty; a year is falsy when it is \<open>0\<close>.
\<close>

definition calculateMatchScore ::
  "doubleOps \<Rightarrow> ssPaper \<Rightarrow> string option \<Rightarrow> string option \<Rightarrow> string option \<Rightarrow> rat" where
  "calculateMatchScore ops result targetTitle targetAuthors targetYear =
     (let a1 = (if ssTitle result \<noteq> [] \<and> truthy targetTitle
                then weigh ops
                       (calculateStringSimilarity ops (toLowerCase (ssTitle result))
                          (toLowerCase (the targetTitle)))
                       double_0_6 (0, 0)
                else (0, 0));
          a2 = (case ssAuthors result of
                  None \<Rightarrow> a1
                | Some as \<Rightarrow>
                    if truthy targetAuthors
                    then weigh ops
                           (calculateStringSimilarity ops (toLowerCase (join '' '' as))
                              (toLowerCase (the targetAuthors)))
                           double_0_3 a1
                    else a1);
          a3 = (case ssYear result of
                  None \<Rightarrow> a2
                | Some y \<Rightarrow>
                    if y \<noteq> 0 \<and> truthy targetYear
                    then weigh ops (yearMatch y (the targetYear)) double_0_1 a2
                    else a2)
      in normalized ops a3)"

text \<open>
  The same for a Crossref work: the first of its titles, its authors as given name and
  family name, and the year of \<open>published-print\<close>.
\<close>

definition calculateCrossrefMatchScore ::
  "doubleOps \<Rightarrow> crWork \<Rightarrow> string option \<Rightarrow> string option \<Rightarrow> string option \<Rightarrow> rat" where
  "calculateCrossrefMatchScore ops result targetTitle targetAuthors targetYear =
     (let a1 = (if length (crTitle result) > 0 \<and> truthy targetTitle
                then weigh ops
                       (calculateStringSimilarity ops (toLowerCase (hd (crTitle result)))
                          (toLowerCase (the targetTitle)))
                       double_0_6 (0, 0)
                else (0, 0));
          a2 = (case crAuthor result of
                  None \<Rightarrow> a1
                | Some as \<Rightarrow>
                    if truthy targetAuthors
                    then weigh ops
                           (calculateStringSimilarity ops (toLowerCase (join '' '' (map crAuthorName as)))
                              (toLowerCase (the targetAuthors)))
                           double_0_3 a1
                    else a1);
          a3 = (case crPublishedPrint result of
                  None \<Rightarrow> a2
                | Some pubYear \<Rightarrow>
                    if truthy targetYear
                    then weigh ops (yearMatch pubYear (the targetYear)) double_0_1 a2
                    else a2)
      in normalized ops a3)"

subsection \<open>The searches\<close>

text \<open>
  What a request returns is the network's answer: \<open>Inl\<close> when \<open>makeRequest\<close> throws
  (time-out, a status that is not 2xx, a body that is not JSON), the list of candidates
  otherwise (empty when the payload has none). The manager's parameters are these
  answers, by query text (for Crossref also by the year filter), and the double
  arithmetic of the platform.
\<close>

record apiManager =
  semanticScholar :: "string \<Rightarrow> error + ssPaper list"
  crossref :: "string \<Rightarrow> string option \<Rightarrow> error + crWork list"
  arith :: doubleOps

text \<open>
  \<open>authors.split(' and ')[0] || authors\<close>, for a truthy \<open>authors\<close>. A missing argument
  (\<open>undefined\<close>, defaulted to \<open>null\<close>) is \<open>None\<close>. A missing title is \<open>undefined\<close>, which
  a template literal and \<open>URLSearchParams\<close> print as that word.
\<close>

definition printed :: "string option \<Rightarrow> string" where
  "printed title = (case title of Some t \<Rightarrow> t | None \<Rightarrow> ''undefined'')"

definition authorClause :: "string option \<Rightarrow> string" where
  "authorClause authors =
     (if truthy authors
      then (let a = the authors; firstAuthor = (if hd (splitOn '' and '' a) \<noteq> [] then hd (splitOn '' and '' a) else a)
            in '' author:'' @ dquote # firstAuthor @ [dquote])
      else [])"

definition searchSemanticScholar ::
  "apiManager \<Rightarrow> string option \<Rightarrow> string option \<Rightarrow> string option \<Rightarrow> fields option" where
  "searchSemanticScholar api title authors year =
     (let query = dquote # printed title @ [dquote] @ authorClause authors
      in case semanticScholar api query of
           Inl err \<Rightarrow> None
         | Inr papers \<Rightarrow>
            (if length papers > 0
             then (case findBestMatch (\<lambda>r. calculateMatchScore (arith api) r title authors year) papers of
                     Some bestMatch \<Rightarrow> Some (formatSemanticScholarResult bestMatch)
                   | None \<Rightarrow> None)
             else None))"

definition searchCrossref ::
  "apiManager \<Rightarrow> string option \<Rightarrow> string option \<Rightarrow> string option \<Rightarrow> fields option" where
  "searchCrossref api title authors year =
     (let query = printed title @ authorClause authors
      in case crossref api query (if truthy year then year else None) of
           Inl err \<Rightarrow> None
         | Inr items \<Rightarrow>
            (if length items > 0
             then (case findBestMatch (\<lambda>r. calculateCrossrefMatchScore (arith api) r title authors year) items of
                     Some bestMatch \<Rightarrow> Some (formatCrossrefResult bestMatch)
                   | None \<Rightarrow> None)
             else None))"

subsection \<open>enhanceReference\<close>

text \<open>\<open>!fields[key] || fields[key].trim() === ''\<close>\<close>

definition isEmptyField :: "fields \<Rightarrow> string \<Rightarrow> bool" where
  "isEmptyField flds key =
     (\<not> truthy (map_of flds key) \<or> trim (the (map_of flds key)) = [])"

text \<open>
  One round of the loop over \<open>Object.entries(result)\<close>: what it does to the
  \<open>enhanced\<close> object for one property of the result. The branches are the source's, in
  its order.
\<close>

definition mergeEntry :: "fields \<Rightarrow> string \<Rightarrow> string \<Rightarrow> fields \<Rightarrow> fields" where
  "mergeEntry flds key val enhanced =
     (if isEmptyField flds key then AList.update key val enhanced
      else if key = ''doi'' \<and> \<not> truthy (map_of flds ''doi'') then AList.update key val enhanced
      else if key = ''abstract'' \<and> \<not> truthy (map_of flds ''abstract'') then AList.update key val enhanced
      else if key = ''note''
        then AList.update key
               (if truthy (map_of flds ''note'') then the (map_of flds ''note'') @ ''; '' @ val else val)
               enhanced
      else enhanced)"

fun mergeResult :: "fields \<Rightarrow> fields \<Rightarrow> fields \<Rightarrow> fields" where
  "mergeResult flds [] enhanced = enhanced"
| "mergeResult flds (entry # rest) enhanced =
     mergeResult flds rest (mergeEntry flds (fst entry) (snd entry) enhanced)"

text \<open>
  Semantic Scholar first, Crossref when it gave nothing. The title of a field set is
  always assigned (\<open>extractFields\<close> does so first); the author and the year may be
  missing.
\<close>

definition providerResult :: "apiManager \<Rightarrow> fields \<Rightarrow> fields option" where
  "providerResult api flds =
     (let title = map_of flds ''title'';
          author = map_of flds ''author'';
          year = map_of flds ''year''
      in case searchSemanticScholar api title author year of
           Some r \<Rightarrow> Some r
         | None \<Rightarrow> searchCrossref api title author year)"

definition enhanceReference :: "apiManager \<Rightarrow> fields \<Rightarrow> fields" where
  "enhanceReference api flds =
     (case providerResult api flds of
        Some result \<Rightarrow> mergeResult flds result []
      | None \<Rightarrow> [])"

section \<open>XMLConverter\<close>

subsection \<open>Reading a record\<close>

text \<open>
  \<open>extractTextContent\<close>: white space collapsed and trimmed, then escaped when the option
  is set. The loop before it, which rewrites italic and bold \<open>style\<close> runs by assigning
  to the DOM, is outside the model: an element of the model has no such run, so the
  loop assigns nothing and the text read is the element's \<open>textContent\<close>.
\<close>

definition extractTextContent :: "config \<Rightarrow> element \<Rightarrow> string" where
  "extractTextContent cfg e =
     (let text = trim (collapseWs (textContent e))
      in if escapeLatexChars cfg then escapeLatex cfg text else text)"

text \<open>The text of the first match of a selector, or the empty text.\<close>

definition firstText :: "config \<Rightarrow> element \<Rightarrow> string \<Rightarrow> string" where
  "firstText cfg record sel =
     (case querySelectorAll record sel of
        [] \<Rightarrow> []
      | x # xs \<Rightarrow> extractTextContent cfg x)"

definition extractTitle :: "config \<Rightarrow> element \<Rightarrow> string" where
  "extractTitle cfg record = firstText cfg record ''title, titles title''"

definition xmlExtractAuthors :: "config \<Rightarrow> element \<Rightarrow> string list" where
  "xmlExtractAuthors cfg record =
     filter (\<lambda>author. author \<noteq> [])
       (map (extractTextContent cfg)
          (querySelectorAll record ''author, authors author, contributors author''))"

text \<open>\<open>yearText.match(/\d{4}/)\<close>: the first four digits in a row.\<close>

fun matchFourDigits :: "string \<Rightarrow> string option" where
  "matchFourDigits (a # b # c # d # rest) =
     (if isDigit a \<and> isDigit b \<and> isDigit c \<and> isDigit d then Some [a, b, c, d]
      else matchFourDigits (b # c # d # rest))"
| "matchFourDigits s = None"

definition xmlExtractYear :: "config \<Rightarrow> element \<Rightarrow> string" where
  "xmlExtractYear cfg record =
     (case querySelectorAll record ''year, dates year, pub-dates year'' of
        [] \<Rightarrow> []
      | x # xs \<Rightarrow> (case matchFourDigits (extractTextContent cfg x) of Some y \<Rightarrow> y | None \<Rightarrow> []))"

text \<open>
  \<open>replace(/(\d+)\s*[-]\s*(\d+)/, '$1--$2')\<close>: the first hyphen that stands between two
  numbers, white space around it allowed, becomes \<open>--\<close> and loses that white space. (The
  source's class also has the en and the em dash, which are not ASCII.)
\<close>

definition separatorAt :: "string \<Rightarrow> bool" where
  "separatorAt s =
     (case dropWhile isSpace s of
        [] \<Rightarrow> False
      | d # r \<Rightarrow> d = CHR ''-'' \<and> (case dropWhile isSpace r of [] \<Rightarrow> False | x # xs \<Rightarrow> isDigit x))"

fun normalizePages :: "char option \<Rightarrow> string \<Rightarrow> string" where
  "normalizePages prev [] = []"
| "normalizePages prev (c # cs) =
     (if (case prev of None \<Rightarrow> False | Some p \<Rightarrow> isDigit p) \<and> separatorAt (c # cs)
      then ''--'' @ dropWhile isSpace (tl (dropWhile isSpace (c # cs)))
      else c # normalizePages (Some c) cs)"

definition xmlExtractPages :: "config \<Rightarrow> element \<Rightarrow> string" where
  "xmlExtractPages cfg record =
     (case querySelectorAll record ''pages'' of
        [] \<Rightarrow> []
      | x # xs \<Rightarrow> normalizePages None (extractTextContent cfg x))"

definition xmlExtractKeywords :: "config \<Rightarrow> element \<Rightarrow> string" where
  "xmlExtractKeywords cfg record =
     join '', ''
       (filter (\<lambda>keyword. keyword \<noteq> [])
          (map (extractTextContent cfg) (querySelectorAll record ''keyword, keywords keyword'')))"

definition entryTypeMap :: "(string \<times> string) list" where
  "entryTypeMap =
     [(''Journal Article'', ''article''),
      (''Book'', ''book''),
      (''Book Section'', ''incollection''),
      (''Conference Paper'', ''inproceedings''),
      (''Conference Proceedings'', ''proceedings''),
      (''Conference Proceeding'', ''proceedings''),
      (''Thesis'', ''phdthesis''),
      (''Report'', ''techreport''),
      (''Web Page'', ''online''),
      (''Patent'', ''patent''),
      (''Unpublished Work'', ''unpublished''),
      (''Manuscript'', ''unpublished''),
      (''Magazine Article'', ''article''),
      (''Newspaper Article'', ''article''),
      (''Electronic Article'', ''article''),
      (''Generic'', ''misc'')]"

definition extractReferenceType :: "config \<Rightarrow> element \<Rightarrow> string" where
  "extractReferenceType cfg record =
     (case querySelectorAll record ''ref-type'' of
        [] \<Rightarrow> ''Generic''
      | x # xs \<Rightarrow>
          (if truthy (getAttribute x ''name'') then the (getAttribute x ''name'')
           else extractTextContent cfg x))"

subsection \<open>generateCitationKey\<close>

definition stopWords :: "string list" where
  "stopWords = [''the'', ''and'', ''of'', ''in'', ''on'', ''at'', ''to'', ''for'', ''with'', ''by'']"

text \<open>\<open>word.charAt(0).toUpperCase() + word.slice(1).toLowerCase()\<close>\<close>

definition capitalize :: "string \<Rightarrow> string" where
  "capitalize word = toUpperCase (take 1 word) @ toLowerCase (drop 1 word)"

text \<open>
  The key as a function of what the three extractions return and the record's zero-based
  index. The \<open>catch\<close> of the source (\<open>ref\<close> and the one-based index) is not reached: no
  statement of the \<open>try\<close> block throws on strings.
\<close>

definition citationKeyOf :: "string list \<Rightarrow> string \<Rightarrow> string \<Rightarrow> nat \<Rightarrow> string" where
  "citationKeyOf authors yearFound title index =
     (let firstAuthor = (case authors of [] \<Rightarrow> ''Unknown'' | a # as \<Rightarrow> a);
          authorParts = splitWs firstAuthor;
          lastName = filter isAlpha (last authorParts);
          year = (if yearFound \<noteq> [] then yearFound else ''0000'');
          titleWords =
            (if title \<noteq> []
             then take 2 (filter (\<lambda>word. length word > 3 \<and> toLowerCase word \<notin> set stopWords)
                            (splitWs title))
             else []);
          baseCitationKey = lastName @ year @ concat (map capitalize titleWords);
          citationKey = baseCitationKey @ (if index > 0 then ''_'' @ showNat index else [])
      in filter isWord citationKey)"

definition generateCitationKey :: "config \<Rightarrow> element \<Rightarrow> nat \<Rightarrow> string" where
  "generateCitationKey cfg record index =
     citationKeyOf (xmlExtractAuthors cfg record) (xmlExtractYear cfg record)
       (extractTitle cfg record) index"

subsection \<open>extractFields\<close>

text \<open>
  The properties in the order the source assigns them; \<open>author\<close> is assigned only when
  there is an author.
\<close>

definition extractFields :: "config \<Rightarrow> element \<Rightarrow> fields" where
  "extractFields cfg record =
     [(''title'', extractTitle cfg record)] @
     (if length (xmlExtractAuthors cfg record) > 0
      then [(''author'', join '' and '' (xmlExtractAuthors cfg record))] else []) @
     [(''year'', xmlExtractYear cfg record),
      (''journal'', firstText cfg record ''secondary-title, journal, periodical''),
      (''publisher'', firstText cfg record ''publisher, pub-location''),
      (''volume'', firstText cfg record ''volume''),
      (''number'', firstText cfg record ''number, issue''),
      (''pages'', xmlExtractPages cfg record),
      (''doi'', firstText cfg record (''doi, electronic-resource-num[source='' @ dquote # ''DOI'' @ dquote # '']'')),
      (''url'', firstText cfg record ''url, urls url, remote-source url''),
      (''abstract'', firstText cfg record ''abstract''),
      (''keywords'', xmlExtractKeywords cfg record),
      (''booktitle'', firstText cfg record ''secondary-title, book-title''),
      (''chapter'', firstText cfg record ''chapter, section''),
      (''edition'', firstText cfg record ''edition''),
      (''series'', firstText cfg record ''series, collection-title''),
      (''address'', firstText cfg record ''pub-location, address''),
      (''organization'', firstText cfg record ''organization, sponsor''),
      (''institution'', firstText cfg record ''institution, university''),
      (''school'', firstText cfg record ''school, university, academic-department''),
      (''note'', firstText cfg record ''note, notes, research-notes'')]"

subsection \<open>The converter's state\<close>

record journalEntry =
  fullName :: string
  abbreviated :: string
  category :: string

record publisherEntry =
  pubName :: string
  pubCategory :: string

datatype logLevel = LogInfo | LogWarning | LogError | LogSuccess

text \<open>
  The fields of the object that a conversion reads and writes, and the lines written to
  the module's \<open>logger\<close>. The three registries are JavaScript objects used as maps, in
  insertion order. (A lookup in such an object also finds what \<open>Object.prototype\<close>
  defines; the model has own properties only.)
\<close>

record converter =
  config :: config
  journals :: "(string \<times> journalEntry) list"
  publishers :: "(string \<times> publisherEntry) list"
  journalNameToKey :: "(string \<times> string) list"
  conversionErrors :: "string list"
  progressCallback :: "(nat \<Rightarrow> nat \<Rightarrow> string \<Rightarrow> bool) option"
  apiManager :: "apiManager option"
  logger :: "(logLevel \<times> string) list"

definition logLine :: "logLevel \<Rightarrow> string \<Rightarrow> converter \<Rightarrow> converter" where
  "logLine level msg c = c\<lparr>logger := logger c @ [(level, msg)]\<rparr>"

definition callProgressCallback :: "converter \<Rightarrow> nat \<Rightarrow> nat \<Rightarrow> string \<Rightarrow> bool" where
  "callProgressCallback c current recordCount msg =
     (case progressCallback c of
        Some callback \<Rightarrow> callback current recordCount msg
      | None \<Rightarrow> True)"

subsection \<open>The string definition registry\<close>

definition journalCategories :: "(string \<times> string list) list" where
  "journalCategories =
     [(''ACM'', [''ACM'', ''Association for Computing Machinery'', ''CACM'', ''Communications of the ACM'',
                 ''Commun. ACM'', ''Trans. ACM'', ''Transactions on'', ''SIGPLAN'', ''SIGCHI'', ''SIGGRAPH'',
                 ''SIGSOFT'', ''SIGIR'', ''SIGKDD'', ''SIGMOD'']),
      (''IEEE'', [''IEEE'', ''Institute of Electrical and Electronics Engineers'', ''Transactions on'',
                  ''Journal of'', ''Proceedings of the IEEE'', ''Computer Society'']),
      (''SIAM'', [''SIAM'', ''Society for Industrial and Applied Mathematics'', ''Journal on'', ''Review'']),
      (''AMS'', [''AMS'', ''American Mathematical Society'', ''Mathematical'']),
      (''Springer'', [''Springer'', ''Lecture Notes in Computer Science'', ''LNCS'', ''Lecture Notes in'']),
      (''Elsevier'', [''Elsevier'', ''Science Direct'', ''Information Sciences'', ''Computer Science'']),
      (''Conference'', [''Proceedings of'', ''Conference on'', ''Symposium on'', ''Workshop on''])]"

definition publisherCategories :: "(string \<times> string list) list" where
  "publisherCategories =
     [(''Academic'', [''Academic'', ''Academic Press'', ''University'']),
      (''ACM'', [''ACM'', ''Association for Computing Machinery'']),
      (''IEEE'', [''IEEE'', ''Institute of Electrical and Electronics Engineers'']),
      (''Commercial'', [''Wiley'', ''Springer'', ''Elsevier'', ''McGraw'', ''Addison'', ''Wesley''])]"

text \<open>
  The two nested loops of \<open>categorizeJournal\<close> and \<open>categorizePublisher\<close>: the categories
  in the order of the table, the patterns of each in their order; the first pattern that
  the lower-cased name includes decides.
\<close>

fun categorize :: "(string \<times> string list) list \<Rightarrow> string \<Rightarrow> string" where
  "categorize [] name = ''Other''"
| "categorize (entry # rest) name =
     (if list_ex (\<lambda>pattern. strIncludes (toLowerCase name) (toLowerCase pattern)) (snd entry)
      then fst entry
      else categorize rest name)"

definition categorizeJournal :: "string \<Rightarrow> string" where
  "categorizeJournal journalName = categorize journalCategories journalName"

definition categorizePublisher :: "string \<Rightarrow> string" where
  "categorizePublisher publisherName = categorize publisherCategories publisherName"

text \<open>
  \<open>replace(/[^a-zA-Z0-9\s]/g, '').split(/\s+/).map(word => word.toLowerCase()).join('')
  .substring(0, n)\<close>
\<close>

definition generateKey :: "nat \<Rightarrow> string \<Rightarrow> string" where
  "generateKey n name =
     take n (concat (map toLowerCase (splitWs (filter (\<lambda>c. isAlnum c \<or> isSpace c) name))))"

definition generateJournalKey :: "string \<Rightarrow> string" where
  "generateJournalKey journalName = generateKey 20 journalName"

definition generatePublisherKey :: "string \<Rightarrow> string" where
  "generatePublisherKey publisherName = generateKey 15 publisherName"

definition generateAbbreviation :: "string \<Rightarrow> string" where
  "generateAbbreviation journalName =
     concat (map (\<lambda>word. toUpperCase (take 1 word)) (splitWs journalName))"

definition addJournal :: "string \<Rightarrow> converter \<Rightarrow> converter" where
  "addJournal journalName c =
     (if truthy (map_of (journalNameToKey c) journalName) then c
      else (let key = generateJournalKey journalName
            in c\<lparr>journals :=
                    AList.update key
                      \<lparr>fullName = journalName,
                       abbreviated = generateAbbreviation journalName,
                       category = categorizeJournal journalName\<rparr>
                      (journals c),
                  journalNameToKey := AList.update journalName key (journalNameToKey c)\<rparr>))"

definition addPublisher :: "string \<Rightarrow> converter \<Rightarrow> converter" where
  "addPublisher publisherName c =
     (let key = generatePublisherKey publisherName
      in if map_of (publishers c) key = None
         then c\<lparr>publishers :=
                  AList.update key
                    \<lparr>pubName = publisherName, pubCategory = categorizePublisher publisherName\<rparr>
                    (publishers c)\<rparr>
         else c)"

text \<open>\<open>this.journalNameToKey[journalName] || null\<close>: \<open>None\<close> is \<open>null\<close>.\<close>

definition getJournalKey :: "converter \<Rightarrow> string \<Rightarrow> string option" where
  "getJournalKey c journalName =
     (if truthy (map_of (journalNameToKey c) journalName)
      then map_of (journalNameToKey c) journalName else None)"

definition getPublisherKey :: "converter \<Rightarrow> string \<Rightarrow> string option" where
  "getPublisherKey c publisherName =
     (let key = generatePublisherKey publisherName
      in if map_of (publishers c) key \<noteq> None then Some key else None)"

text \<open>
  \<open>collectJournalAndPublisherInfo\<close>: every element that one of the selectors matches, the
  selectors in turn, registers its trimmed text when that is not empty.
\<close>

definition observedNames :: "config \<Rightarrow> element \<Rightarrow> string list \<Rightarrow> string list" where
  "observedNames cfg record elementNames =
     map trim
       (filter (\<lambda>n. n \<noteq> [] \<and> trim n \<noteq> [])
          (map (extractTextContent cfg)
             (concat (map (querySelectorAll record) elementNames))))"

definition collectRecord :: "element \<Rightarrow> converter \<Rightarrow> converter" where
  "collectRecord record c =
     (let c1 = fold addJournal
                 (observedNames (config c) record [''secondary-title'', ''journal'', ''periodical'']) c
      in fold addPublisher (observedNames (config c) record [''publisher'', ''pub-location'']) c1)"

definition collectJournalAndPublisherInfo :: "element list \<Rightarrow> converter \<Rightarrow> converter" where
  "collectJournalAndPublisherInfo records c = fold collectRecord records c"

text \<open>
  \<open>Object.entries\<close> of an object used as a map: the keys that are array indices (a
  canonical decimal numeral below \<open>2^32 - 1\<close>) come first, in ascending order, then the
  other keys in insertion order.
\<close>

definition digitValue :: "char \<Rightarrow> int" where
  "digitValue c = int (length (takeWhile (\<lambda>d. d \<noteq> c) digits))"

definition numberOf :: "string \<Rightarrow> int" where
  "numberOf k = foldl (\<lambda>n c. 10 * n + digitValue c) 0 k"

definition isArrayIndex :: "string \<Rightarrow> bool" where
  "isArrayIndex k =
     (k \<noteq> [] \<and> list_all isDigit k \<and> (k = ''0'' \<or> hd k \<noteq> CHR ''0'') \<and> numberOf k < 4294967295)"

definition objectEntries :: "(string \<times> 'a) list \<Rightarrow> (string \<times> 'a) list" where
  "objectEntries obj =
     sort_key (\<lambda>p. numberOf (fst p)) (filter (\<lambda>p. isArrayIndex (fst p)) obj) @
     filter (\<lambda>p. \<not> isArrayIndex (fst p)) obj"

text \<open>
  Grouping by category: \<open>byCategory[category].push(...)\<close>, a new category appended after
  the ones seen before.
\<close>

definition pushTo :: "string \<Rightarrow> 'a \<Rightarrow> (string \<times> 'a list) list \<Rightarrow> (string \<times> 'a list) list" where
  "pushTo cat x groups =
     AList.update cat ((case map_of groups cat of None \<Rightarrow> [] | Some xs \<Rightarrow> xs) @ [x]) groups"

definition journalsByCategory ::
  "(string \<times> journalEntry) list \<Rightarrow> (string \<times> (string \<times> journalEntry) list) list" where
  "journalsByCategory js = foldl (\<lambda>groups p. pushTo (category (snd p)) p groups) [] (objectEntries js)"

definition publishersByCategory ::
  "(string \<times> publisherEntry) list \<Rightarrow> (string \<times> (string \<times> publisherEntry) list) list" where
  "publishersByCategory ps = foldl (\<lambda>groups p. pushTo (pubCategory (snd p)) p groups) [] (objectEntries ps)"

definition stringLine :: "string \<Rightarrow> string \<Rightarrow> string" where
  "stringLine key name = ''@string{'' @ key @ '' = '' @ dquote # name @ dquote # ''}'' @ [newline]"

definition journalBlock :: "string \<times> (string \<times> journalEntry) list \<Rightarrow> string" where
  "journalBlock g =
     (if length (snd g) > 0
      then newline # ''% '' @ fst g @ '' Journals'' @ [newline] @
           concat (map (\<lambda>p. stringLine (fst p) (fullName (snd p))) (snd g))
      else [])"

definition publisherBlock :: "string \<times> (string \<times> publisherEntry) list \<Rightarrow> string" where
  "publisherBlock g =
     (if length (snd g) > 0
      then newline # ''% '' @ fst g @ '' Publishers'' @ [newline] @
           concat (map (\<lambda>p. stringLine (fst p) (pubName (snd p))) (snd g))
      else [])"

definition generateStringDefinitions :: "converter \<Rightarrow> string" where
  "generateStringDefinitions c =
     (if length (journals c) = 0 \<and> length (publishers c) = 0 then []
      else ''% String definitions for journals and publishers'' @ [newline] @
           concat (map journalBlock (journalsByCategory (journals c))) @
           concat (map publisherBlock (publishersByCategory (publishers c))))"

subsection \<open>Formatting an entry\<close>

definition biblatexFieldMap :: "(string \<times> string) list" where
  "biblatexFieldMap =
     [(''journal'', ''journaltitle''),
      (''address'', ''location''),
      (''school'', ''institution''),
      (''articleno'', ''number'')]"

definition endsWith :: "string \<Rightarrow> string \<Rightarrow> bool" where
  "endsWith s p = startsWith (rev s) (rev p)"

definition formatFieldValue :: "string \<Rightarrow> string \<Rightarrow> string" where
  "formatFieldValue val fieldName =
     (if val = [] then []
      else (let v = trim val
            in if fieldName = ''pages'' then normalizePages None v
               else if fieldName = ''title''
                 then (if \<not> startsWith v ''{'' \<and> \<not> endsWith v ''}'' then ''{'' @ v @ ''}'' else v)
               else v))"

text \<open>
  One round of the loop of \<open>formatFields\<close>: what it does to \<open>formattedFields\<close> for one
  property of the field set. A registry key is used only when it is truthy; otherwise
  control reaches the assignment of the formatted literal.
\<close>

definition formatField :: "converter \<Rightarrow> string \<Rightarrow> string \<Rightarrow> fields \<Rightarrow> fields" where
  "formatField c key val formattedFields =
     (if val = [] \<or> trim val = [] then formattedFields
      else
       (let fieldName =
              (if useBiblatexFields (config c) \<and> truthy (map_of biblatexFieldMap key)
               then the (map_of biblatexFieldMap key) else key)
        in if useStringDefinitions (config c) \<and> (fieldName = ''journal'' \<or> fieldName = ''journaltitle'') \<and>
              truthy (getJournalKey c val)
           then AList.update fieldName (the (getJournalKey c val)) formattedFields
           else if useStringDefinitions (config c) \<and> fieldName = ''publisher'' \<and>
                   truthy (getPublisherKey c val)
           then AList.update fieldName (the (getPublisherKey c val)) formattedFields
           else AList.update fieldName (formatFieldValue val fieldName) formattedFields))"

definition formatFields :: "converter \<Rightarrow> fields \<Rightarrow> string \<Rightarrow> fields" where
  "formatFields c flds bibtexType = foldl (\<lambda>formatted p. formatField c (fst p) (snd p) formatted) [] flds"

definition fieldLine :: "string \<times> string \<Rightarrow> string" where
  "fieldLine p =
     (if snd p \<noteq> [] \<and> trim (snd p) \<noteq> []
      then '','' @ [newline] @ ''  '' @ fst p @ '' = {'' @ snd p @ ''}''
      else [])"

definition generateBibtexEntry :: "string \<Rightarrow> string \<Rightarrow> fields \<Rightarrow> string" where
  "generateBibtexEntry type key flds =
     ''@'' @ type @ ''{'' @ key @ concat (map fieldLine flds) @ [newline] @ ''}''"

subsection \<open>processRecord\<close>

text \<open>
  The field set after the optional enhancement: \<open>Object.assign(fields, enhancedFields)\<close>
  when the option is set and a manager is installed.
\<close>

definition enhancedFields :: "converter \<Rightarrow> fields \<Rightarrow> fields" where
  "enhancedFields c flds =
     (case apiManager c of
        Some api \<Rightarrow>
          if enableApiEnhancement (config c) then objectAssign flds (enhanceReference api flds) else flds
      | None \<Rightarrow> flds)"

text \<open>
  \<open>Inl\<close> stands for the exception that the source rethrows. No statement of the model
  throws (the selectors are constants and every value is a string), so the result is
  always an entry.
\<close>

definition processRecord :: "converter \<Rightarrow> element \<Rightarrow> nat \<Rightarrow> error + string" where
  "processRecord c record index =
     (let refType = extractReferenceType (config c) record;
          bibtexType = (if truthy (map_of entryTypeMap refType) then the (map_of entryTypeMap refType)
                        else ''misc'');
          citationKey = generateCitationKey (config c) record index;
          flds = enhancedFields c (extractFields (config c) record);
          formattedFields = formatFields c flds bibtexType
      in Inr (generateBibtexEntry bibtexType citationKey formattedFields))"

text \<open>The entry of a record, for statements about the entries of a run.\<close>

definition entryOf :: "converter \<Rightarrow> element \<Rightarrow> nat \<Rightarrow> string" where
  "entryOf c record index = (case processRecord c record index of Inr entry \<Rightarrow> entry | Inl err \<Rightarrow> [])"

subsection \<open>convertToBibtex\<close>

definition possiblePaths :: "string list" where
  "possiblePaths =
     [''record'', ''records record'', ''xml records record'', ''EndNote records record'',
      ''xml database record'']"

text \<open>
  The loop over the paths: the first path whose query returns an element, with what it
  returned; \<open>None\<close> when the loop ends with \<open>records\<close> still empty.
\<close>

fun findRecords :: "document \<Rightarrow> string list \<Rightarrow> (string \<times> element list) option" where
  "findRecords xmlDoc [] = None"
| "findRecords xmlDoc (path # rest) =
     (if length (docQuerySelectorAll xmlDoc path) > 0
      then Some (path, docQuerySelectorAll xmlDoc path)
      else findRecords xmlDoc rest)"

function describeXmlStructure :: "element \<Rightarrow> nat \<Rightarrow> nat \<Rightarrow> string" where
  "describeXmlStructure e maxDepth currentDepth =
     (if currentDepth \<ge> maxDepth then ''...''
      else if length (children e) = 0 then tagName e
      else (let childTags =
                  map (\<lambda>child. describeXmlStructure child maxDepth (currentDepth + 1))
                    (take 5 (children e))
            in tagName e @ ''['' @
               join '', '' (if length (children e) > 5 then childTags @ [''...''] else childTags) @
               '']''))"
  by pat_completeness auto
termination
  by (relation "measure (\<lambda>(e, maxDepth, currentDepth). maxDepth - currentDepth)") auto

definition showBool :: "bool \<Rightarrow> string" where
  "showBool b = (if b then ''true'' else ''false'')"

definition getRecordTitle :: "config \<Rightarrow> element \<Rightarrow> string option" where
  "getRecordTitle cfg record =
     (case querySelectorAll record ''title, titles title'' of
        [] \<Rightarrow> None
      | x # xs \<Rightarrow>
          (let title = extractTextContent cfg x
           in if title \<noteq> [] then Some (take 50 title @ (if length title > 50 then ''...'' else []))
              else None))"

definition progressMessage :: "config \<Rightarrow> nat \<Rightarrow> nat \<Rightarrow> element \<Rightarrow> string" where
  "progressMessage cfg i recordCount record =
     ''Processing record '' @ showNat (i + 1) @ ''/'' @ showNat recordCount @ '': Extracting '' @
     (if truthy (getRecordTitle cfg record) then the (getRecordTitle cfg record) else ''reference'') @
     ''...''"

text \<open>The check mark and the warning sign of the log lines, as UTF-8.\<close>

definition checkMark :: string where
  "checkMark = [CHR 0xE2, CHR 0x9C, CHR 0x93]"

definition warningSign :: string where
  "warningSign = [CHR 0xE2, CHR 0x9A, CHR 0xA0]"

text \<open>
  The body of the loop after the progress call: one record is dispatched to
  \<open>processRecord\<close>, and its entry, if any, is pushed. The result is the entries and the
  converter after it.
\<close>

definition dispatch :: "converter \<Rightarrow> nat \<Rightarrow> element \<Rightarrow> string list \<Rightarrow> string list \<times> converter" where
  "dispatch c i record bibtexEntries =
     (case processRecord c record i of
        Inr entry \<Rightarrow>
          if entry \<noteq> []
          then (bibtexEntries @ [entry],
                logLine LogInfo
                  (checkMark @ '' Processed record '' @ showNat (i + 1) @ '': '' @
                   (if truthy (getRecordTitle (config c) record) then the (getRecordTitle (config c) record)
                    else ''Entry '' @ showNat (i + 1))) c)
          else (bibtexEntries,
                logLine LogWarning
                  (warningSign @ '' Skipped record '' @ showNat (i + 1) @ '': Unable to process'') c)
      | Inl err \<Rightarrow>
          (let errorMsg = ''Error processing record '' @ showNat (i + 1) @ '': '' @ message err
           in (bibtexEntries,
               (logLine LogError errorMsg (logLine LogError errorMsg c))
                 \<lparr>conversionErrors := conversionErrors c @ [errorMsg]\<rparr>)))"

text \<open>
  The loop \<open>for (let i = 0; i < records.length; i++)\<close>, from index \<open>i\<close> on: \<open>rest\<close> is
  \<open>records[i..]\<close> and \<open>recordCount\<close> is \<open>records.length\<close>. A progress call that returns \<open>false\<close>
  is the \<open>break\<close>.
\<close>

fun processRecords ::
  "nat \<Rightarrow> nat \<Rightarrow> element list \<Rightarrow> string list \<times> converter \<Rightarrow> string list \<times> converter" where
  "processRecords recordCount i [] state = state"
| "processRecords recordCount i (record # rest) state =
     (if \<not> callProgressCallback (snd state) (i + 1) recordCount (progressMessage (config (snd state)) i recordCount record)
      then (fst state, logLine LogInfo ''Conversion cancelled by user'' (snd state))
      else processRecords recordCount (i + 1) rest (dispatch (snd state) i record (fst state)))"

definition generateStatistics :: "string \<Rightarrow> converter \<Rightarrow> nat \<Rightarrow> nat \<Rightarrow> string" where
  "generateStatistics timestamp c totalRecords convertedRecords =
     ''% BibTeX file generated by Reference Converter'' @ [newline] @
     ''% Generation time: '' @ timestamp @ [newline] @
     ''% Total records processed: '' @ showNat totalRecords @ [newline] @
     ''% Successfully converted: '' @ showNat convertedRecords @ [newline] @
     ''% Conversion errors: '' @ showNat (length (conversionErrors c)) @ [newline] @
     ''% Configuration: String definitions='' @ showBool (useStringDefinitions (config c)) @
     '', BibLaTeX='' @ showBool (useBiblatexFields (config c)) @
     '', ACM style='' @ showBool (useAcmStyle (config c))"

text \<open>The start of a run: the collections and the error list are reset.\<close>

definition startRun :: "converter \<Rightarrow> converter" where
  "startRun c =
     logLine LogInfo (''ACM style enabled: '' @ showBool (useAcmStyle (config c)))
       (logLine LogInfo (''BibLaTeX fields enabled: '' @ showBool (useBiblatexFields (config c)))
          (logLine LogInfo (''String definitions enabled: '' @ showBool (useStringDefinitions (config c)))
             (logLine LogInfo ''Starting conversion process...''
                (c\<lparr>conversionErrors := [], journals := [], publishers := [], journalNameToKey := []\<rparr>))))"

text \<open>A failure of the whole run: the message is logged and recorded, the text is empty.\<close>

definition failRun :: "string \<Rightarrow> converter \<Rightarrow> string \<times> converter" where
  "failRun errorMsg c =
     ([], (logLine LogError errorMsg c)\<lparr>conversionErrors := conversionErrors c @ [errorMsg]\<rparr>)"

text \<open>The pre-pass over the records, when string definitions are enabled.\<close>

definition collectIfEnabled :: "element list \<Rightarrow> converter \<Rightarrow> converter" where
  "collectIfEnabled records c =
     (if useStringDefinitions (config c) then collectJournalAndPublisherInfo records c else c)"

text \<open>
  The text that is returned: the statistics comment, the string definitions when they
  are enabled and there are any, and the entries.
\<close>

definition outputText :: "string \<Rightarrow> converter \<Rightarrow> nat \<Rightarrow> string list \<Rightarrow> string" where
  "outputText timestamp c recordCount bibtexEntries =
     (let stringDefs = generateStringDefinitions c;
          defsText = (if useStringDefinitions (config c) \<and> stringDefs \<noteq> []
                      then stringDefs @ [newline, newline] else [])
      in generateStatistics timestamp c recordCount (length bibtexEntries) @ [newline, newline] @
         defsText @ join [newline, newline] bibtexEntries)"

text \<open>What follows the loop, from the entries and the converter it leaves.\<close>

definition assemble :: "string \<Rightarrow> nat \<Rightarrow> string list \<times> converter \<Rightarrow> string \<times> converter" where
  "assemble timestamp recordCount state =
     (let bibtexEntries = fst state;
          c1 = logLine LogInfo ''Generating final BibTeX output...'' (snd state);
          c2 = (if useStringDefinitions (config c1)
                then (let c' = logLine LogInfo ''Generating string definitions...'' c1
                      in if generateStringDefinitions c' \<noteq> []
                         then logLine LogInfo
                                (''Generated string definitions for '' @ showNat (length (journals c')) @
                                 '' journals and '' @ showNat (length (publishers c')) @ '' publishers'') c'
                         else c')
                else c1)
      in (outputText timestamp c2 recordCount bibtexEntries,
          logLine LogSuccess
            (''Conversion completed! Generated '' @ showNat (length bibtexEntries) @
             '' BibTeX entries from '' @ showNat recordCount @ '' XML records.'') c2))"

text \<open>
  \<open>convertToBibtex\<close>, on the document that the parser returns for the XML text. The
  result is the returned text and the converter after the run. \<open>timestamp\<close> is what the
  clock gives for the statistics comment. The progress calls whose answer the source
  drops (before the pre-pass and after the loop) leave no trace in the model.
\<close>

definition convertToBibtex :: "string \<Rightarrow> document \<Rightarrow> converter \<Rightarrow> string \<times> converter" where
  "convertToBibtex timestamp xmlDoc c =
     (let c0 = startRun c
      in case docQuerySelector xmlDoc ''parsererror'' of
           Some parseError \<Rightarrow>
             failRun (''Error parsing XML: XML parsing error: '' @ textContent parseError) c0
         | None \<Rightarrow>
            (let c1 = logLine LogInfo (''XML root tag: '' @ tagName (documentElement xmlDoc)) c0
             in case findRecords xmlDoc possiblePaths of
                  None \<Rightarrow>
                    failRun (''No records found in XML data. XML structure: '' @
                             describeXmlStructure (documentElement xmlDoc) 3 0) c1
                | Some (path, records) \<Rightarrow>
                   (let c2 = logLine LogInfo
                               (''Found '' @ showNat (length records) @ '' records using path: '' @ path) c1;
                        c3 = collectIfEnabled records c2;
                        c4 = logLine LogInfo (''Processing '' @ showNat (length records) @ '' records...'') c3
                    in assemble timestamp (length records)
                         (processRecords (length records) 0 records ([], c4)))))"

section \<open>The entry type decision as a table\<close>



section \<open>The registry as a function of the observations\<close>




section \<open>Example inputs\<close>

definition leaf :: "string \<Rightarrow> string \<Rightarrow> element" where
  "leaf tag txt = Element tag txt [] [] []"


text \<open>A converter as the constructor leaves it, with no callback and no manager.\<close>

definition newConverter :: converter where
  "newConverter =
     \<lparr>config = defaultConfig, journals = [], publishers = [], journalNameToKey = [],
      conversionErrors = [], progressCallback = None, apiManager = None, logger = []\<rparr>"

text \<open>
  A record with one author, a year, a title and the journal
  \<open>IEEE Transactions on Computers\<close>.
\<close>

definition ieeeJournal :: element where
  "ieeeJournal = leaf ''secondary-title'' ''IEEE Transactions on Computers''"

definition ieeeRecord :: element where
  "ieeeRecord =
     Element ''record'' ''Smith, John A Study of Things IEEE Transactions on Computers 2023'' []
       [leaf ''author'' ''Smith, John'', leaf ''title'' ''A Study of Things'', ieeeJournal,
        leaf ''year'' ''2023'']
       [(''title, titles title'', [leaf ''title'' ''A Study of Things'']),
        (''author, authors author, contributors author'', [leaf ''author'' ''Smith, John'']),
        (''year, dates year, pub-dates year'', [leaf ''year'' ''2023'']),
        (''secondary-title, journal, periodical'', [ieeeJournal]),
        (''secondary-title, book-title'', [ieeeJournal]),
        (''secondary-title'', [ieeeJournal])]"

text \<open>
  A record as the engine reads it: one author in an \<open>authors\<close> container, a title and a
  year. The document holds the record twice.
\<close>

definition smithAuthors :: element where
  "smithAuthors = Element ''authors'' ''John Smith'' [] [leaf ''author'' ''John Smith'']
     [(''author'', [leaf ''author'' ''John Smith''])]"

definition smithRecord :: element where
  "smithRecord =
     Element ''record'' ''John Smith Deep Learning 2020'' []
       [smithAuthors, leaf ''title'' ''Deep Learning'', leaf ''year'' ''2020'']
       [(''authors'', [smithAuthors]),
        (''title'', [leaf ''title'' ''Deep Learning'']),
        (''year'', [leaf ''year'' ''2020''])]"

definition twoSmiths :: document where
  "twoSmiths =
     Document (Element ''records'' [] [] [smithRecord, smithRecord] [])
       [(''record, reference, citation, item'', [smithRecord, smithRecord])]"

definition plainOptions :: conversionOptions where
  "plainOptions =
     \<lparr>includeAbstract = False, includeKeywords = False, includeNotes = False,
      preserveFormatting = False, customFields = [], citationStyle = ''standard'',
      optEscapeLatex = True, optSuppressWarnings = False\<rparr>"

text \<open>A record with no child at all, and a document that holds just this record.\<close>

definition emptyRecord :: element where
  "emptyRecord = Element ''record'' [] [] [] []"

definition oneEmptyRecord :: document where
  "oneEmptyRecord = Document (Element ''xml'' [] [] [emptyRecord] []) [(''record'', [emptyRecord])]"






text \<open>
  A record with a title and a note, and a converter whose manager gets one Semantic
  Scholar candidate with the same title in capitals, an author, a venue and a citation
  count. The record has no author and no year, so the candidate's score is
  \<open>(2 / 2 * 0.6) / 0.6\<close>; the exact results of these operations are doubles, so the
  arithmetic without rounding is double arithmetic here.
\<close>

definition notedRecord :: element where
  "notedRecord =
     Element ''record'' ''A Study Read'' [] [leaf ''title'' ''A Study'', leaf ''notes'' ''Read'']
       [(''title, titles title'', [leaf ''title'' ''A Study'']),
        (''note, notes, research-notes'', [leaf ''notes'' ''Read''])]"

definition citedPaper :: ssPaper where
  "citedPaper =
     \<lparr>ssTitle = ''A STUDY'', ssAuthors = Some [''Ann Lee''], ssYear = Some 2021,
      ssJournal = None, ssVenue = ''Nature'', ssDoi = [], ssUrl = [], ssAbstract = [],
      ssCitationCount = Some 7\<rparr>"

definition exactOps :: doubleOps where
  "exactOps = \<lparr>dmul = (\<lambda>a b. a * b), dadd = (\<lambda>a b. a + b), ddiv = (\<lambda>a b. a / b)\<rparr>"

definition oneCandidate :: apiManager where
  "oneCandidate =
     \<lparr>semanticScholar = (\<lambda>query. Inr [citedPaper]),
      crossref = (\<lambda>query year. Inl (Error ''Request timeout'')),
      arith = exactOps\<rparr>"

definition enhancingConverter :: converter where
  "enhancingConverter = newConverter\<lparr>apiManager := Some oneCandidate\<rparr>"





section \<open>Properties\<close>


subsection \<open>LaTeX escaping\<close>

text \<open>
  The engine's escaper is a homomorphism: it rewrites each character on its own, so a
  backslash it writes is never read again.
\<close>

lemma escapeLatexCharacters_append:
  "escapeLatexCharacters (s @ t) = escapeLatexCharacters s @ escapeLatexCharacters t"
  by (simp add: escapeLatexCharacters_def)

lemma escapeLatexCharacters_special:
  "c \<in> set ''&%$#_{}'' \<Longrightarrow> escapeLatexCharacters (c # s) = bslash # c # escapeLatexCharacters s"
  by (auto simp add: escapeLatexCharacters_def escapeMap_def bslash_def)

text \<open>
  C4. Each special character is to be preceded by exactly one backslash, and the
  escaper is not to escape a backslash that it wrote itself. \<open>XMLConverter.escapeLatex\<close>
  breaks this on \<open>a&b\<close>: the row for \<open>&\<close> writes a backslash, and the later row for the
  backslash rewrites it, so the ampersand ends up behind \<open>\textbackslash{}\<close>. The
  engine's one-pass escaper returns \<open>a\&b\<close>.
\<close>

theorem escapeLatex_escapes_its_own_backslash:
  "escapeLatex defaultConfig ''a&b'' = ''a'' @ bslash # ''textbackslash{}&b'' \<and>
   escapeLatexCharacters ''a&b'' = ''a'' @ bslash # ''&b''"
  by code_simp

theorem escapeLatex_escapes_its_own_backslash_witness:
  "escapeLatex defaultConfig ''a&b'' \<noteq> escapeLatexCharacters ''a&b''"
  using escapeLatex_escapes_its_own_backslash by (simp add: bslash_def)

subsection \<open>Entry type\<close>





subsection \<open>Journal categories\<close>

text \<open>
  C9. The journal \<open>IEEE Transactions on Computers\<close> is to be categorized under \<open>IEEE\<close>.
  The table is searched in its order, the row of \<open>ACM\<close> comes first and holds the
  pattern \<open>Transactions on\<close>, so the category is \<open>ACM\<close>, and the definition is emitted
  under \<open>% ACM Journals\<close>. The entry's journal field is the registry key, as claimed.
\<close>

theorem ieee_transactions_categorized_as_acm:
  "categorizeJournal ''IEEE Transactions on Computers'' = ''ACM'' \<and>
   journals (collectIfEnabled [ieeeRecord] newConverter) =
     [(''ieeetransactionsonco'',
       \<lparr>fullName = ''IEEE Transactions on Computers'', abbreviated = ''ITOC'', category = ''ACM''\<rparr>)] \<and>
   generateStringDefinitions (collectIfEnabled [ieeeRecord] newConverter) =
     ''% String definitions for journals and publishers'' @ [newline, newline] @
     ''% ACM Journals'' @ [newline] @
     ''@string{ieeetransactionsonco = '' @ dquote # ''IEEE Transactions on Computers'' @ dquote # ''}'' @
     [newline] \<and>
   map_of (formatFields (collectIfEnabled [ieeeRecord] newConverter)
             (extractFields defaultConfig ieeeRecord) ''misc'') ''journal'' =
     Some ''ieeetransactionsonco''"
  by code_simp

theorem ieee_transactions_categorized_as_acm_witness:
  "categorizeJournal ''IEEE Transactions on Computers'' \<noteq> ''IEEE''"
  using ieee_transactions_categorized_as_acm by simp

subsection \<open>Best match selection\<close>







subsection \<open>Citation keys\<close>

text \<open>
  C1. Two entries of one result are to have different keys, also when their records
  agree in author, year and title. \<open>ConversionEngine.generateBibTeXKey\<close> has no suffix and
  no tracking of the keys it gave out (the record's number is used only for a key
  shorter than three characters): the two records of \<open>twoSmiths\<close> both get
  \<open>smith2020deep\<close>. \<open>XMLConverter.generateCitationKey\<close> appends \<open>_index\<close> from the second
  record on, which separates equal records but not a first record whose title word ends
  in \<open>_1\<close> from a second record without that ending.
\<close>

theorem generateBibTeXKey_repeats_key:
  "map (\<lambda>r. r ''id'') (fst (extractReferences (\<lambda>s. None) twoSmiths plainOptions [])) =
     [Some ''smith2020deep'', Some ''smith2020deep''] \<and>
   citationKeyOf [''Smith''] ''2020'' (escapeLatex defaultConfig ''Data_1'') 0 =
     citationKeyOf [''Smith''] ''2020'' (escapeLatex defaultConfig ''Datatextbackslash'') 1"
  by code_simp

theorem generateBibTeXKey_repeats_key_witness:
  "map (\<lambda>r. r ''id'') (fst (extractReferences (\<lambda>s. None) twoSmiths plainOptions [])) \<noteq>
     [Some ''smith2020deep'', Some ''smith2020deep_1'']"
  using generateBibTeXKey_repeats_key by simp

subsection \<open>The title and author gate\<close>

text \<open>
  The engine rejects a record with neither title nor author, and nothing else: every
  reference it returns has one of the two.
\<close>

lemma parseReference_gate:
  "parseReference chk e options n = Inr (Some r) \<Longrightarrow> truthy (r ''title'') \<or> truthy (r ''author'')"
  by (auto simp add: parseReference_def split: sum.splits if_splits)

lemma parseEntries_gate:
  "r \<in> set (fst (parseEntries chk options i entries acc)) \<Longrightarrow>
   (\<And>r'. r' \<in> set (fst acc) \<Longrightarrow> truthy (r' ''title'') \<or> truthy (r' ''author'')) \<Longrightarrow>
   truthy (r ''title'') \<or> truthy (r ''author'')"
proof (induction entries arbitrary: i acc)
  case Nil
  then show ?case by simp
next
  case (Cons entry rest)
  obtain refs warns where acc: "acc = (refs, warns)" by (cases acc)
  show ?case
  proof (rule Cons.IH)
    show "r \<in> set (fst (parseEntries chk options (i + 1) rest
            (case parseReference chk entry options (i + 1) of
               Inr (Some r) \<Rightarrow> (refs @ [r], warns)
             | Inr None \<Rightarrow> (refs, warns)
             | Inl err \<Rightarrow>
                 (refs, warns @ [''Error parsing reference '' @ showNat (i + 1) @ '': '' @ message err]))))"
      using Cons.prems(1) acc by simp
  next
    fix r'
    assume "r' \<in> set (fst (case parseReference chk entry options (i + 1) of
               Inr (Some r) \<Rightarrow> (refs @ [r], warns)
             | Inr None \<Rightarrow> (refs, warns)
             | Inl err \<Rightarrow>
                 (refs, warns @ [''Error parsing reference '' @ showNat (i + 1) @ '': '' @ message err])))"
    then show "truthy (r' ''title'') \<or> truthy (r' ''author'')"
      using Cons.prems(2) acc parseReference_gate [of chk entry options "i + 1"]
      by (auto split: sum.splits option.splits)
  qed
qed

lemma extractReferences_gate:
  "r \<in> set (fst (extractReferences chk xmlDoc options warnings)) \<Longrightarrow>
   truthy (r ''title'') \<or> truthy (r ''author'')"
  using parseEntries_gate [of r chk options 0 "locateEntries xmlDoc" "([], warnings)"]
  by (auto simp add: extractReferences_def Let_def split: if_splits)

text \<open>
  C2. A record with neither title nor author is to yield no entry.
  \<open>ConversionEngine.parseReference\<close> returns \<open>null\<close> for the empty record.
  \<open>XMLConverter.processRecord\<close> has no such test: for the same record it returns the entry
  \<open>@misc{Unknown0000}\<close>, and \<open>convertToBibtex\<close> puts it into the text it returns and
  counts it as converted.
\<close>

theorem processRecord_emits_entry_without_title_and_author:
  "extractTitle defaultConfig emptyRecord = [] \<and>
   xmlExtractAuthors defaultConfig emptyRecord = [] \<and>
   processRecord newConverter emptyRecord 0 = Inr (''@misc{Unknown0000'' @ [newline] @ ''}'') \<and>
   fst (convertToBibtex ''T'' oneEmptyRecord newConverter) =
     ''% BibTeX file generated by Reference Converter'' @ [newline] @
     ''% Generation time: T'' @ [newline] @
     ''% Total records processed: 1'' @ [newline] @
     ''% Successfully converted: 1'' @ [newline] @
     ''% Conversion errors: 0'' @ [newline] @
     ''% Configuration: String definitions=true, BibLaTeX=false, ACM style=false'' @
     [newline, newline] @ ''@misc{Unknown0000'' @ [newline] @ ''}''"
  by code_simp

theorem processRecord_emits_entry_without_title_and_author_witness:
  "processRecord newConverter emptyRecord 0 \<noteq> Inl (Error []) \<and>
   parseReference (\<lambda>s. None) emptyRecord plainOptions 1 = Inr None"
proof -
  have t: "extractText emptyRecord ''title, Title, TITLE'' = []"
    by code_simp
  have a: "extractAuthors emptyRecord = []"
    by code_simp
  have "parseReference (\<lambda>s. None) emptyRecord plainOptions 1 = Inr None"
    by (simp add: parseReference_def plainOptions_def optionalFields_def coreFields_def truthy_def t a)
  then show ?thesis
    using processRecord_emits_entry_without_title_and_author by simp
qed

subsection \<open>Record location\<close>




text \<open>
  The engine's locator has two selector groups and the same rule: the second is tried
  only when the first matched nothing, and when neither matches the result is no
  reference and one more warning, a fixed sentence.
\<close>

lemma extractReferences_nothing_found:
  "docQuerySelectorAll xmlDoc ''record, reference, citation, item'' = [] \<Longrightarrow>
   docQuerySelectorAll xmlDoc ''*[title], *[author], *[journal]'' = [] \<Longrightarrow>
   extractReferences chk xmlDoc options warnings =
     ([], warnings @ [''No recognizable reference entries found in XML''])"
  by (simp add: extractReferences_def locateEntries_def)



subsection \<open>Cancellation\<close>

text \<open>
  What the loop writes to the converter is log lines. Nothing that a record's entry or
  the returned text depends on reads the log.
\<close>

lemma config_logger: "config (c\<lparr>logger := l\<rparr>) = config c"
  by simp

lemma apiManager_logger: "apiManager (c\<lparr>logger := l\<rparr>) = apiManager c"
  by simp

lemma getJournalKey_logger [simp]: "getJournalKey (c\<lparr>logger := l\<rparr>) = getJournalKey c"
  by (rule ext) (simp add: getJournalKey_def)

lemma getPublisherKey_logger [simp]: "getPublisherKey (c\<lparr>logger := l\<rparr>) = getPublisherKey c"
  by (rule ext) (simp add: getPublisherKey_def Let_def)

lemma formatField_logger [simp]: "formatField (c\<lparr>logger := l\<rparr>) = formatField c"
  unfolding formatField_def [abs_def] config_logger getJournalKey_logger getPublisherKey_logger
  by (rule refl)

lemma enhancedFields_logger [simp]: "enhancedFields (c\<lparr>logger := l\<rparr>) = enhancedFields c"
  unfolding enhancedFields_def [abs_def] config_logger apiManager_logger
  by (rule refl)

lemma processRecord_logger [simp]: "processRecord (c\<lparr>logger := l\<rparr>) = processRecord c"
  unfolding processRecord_def [abs_def] formatFields_def [abs_def] config_logger
    formatField_logger enhancedFields_logger
  by (rule refl)

lemma entryOf_logger [simp]: "entryOf (c\<lparr>logger := l\<rparr>) = entryOf c"
  by (rule ext)+ (simp add: entryOf_def)



lemma callProgressCallback_logger [simp]:
  "callProgressCallback (c\<lparr>logger := l\<rparr>) = callProgressCallback c"
  by (rule ext)+ (simp add: callProgressCallback_def)




















subsection \<open>The enhancement merge\<close>

text \<open>\<open>Object.assign\<close> with a source whose keys are distinct: the source wins where it has the key.\<close>

lemma map_of_objectAssign:
  "distinct (map fst source) \<Longrightarrow>
   map_of (objectAssign target source) k =
     (case map_of source k of Some v \<Rightarrow> Some v | None \<Rightarrow> map_of target k)"
proof (induction source arbitrary: target)
  case Nil
  then show ?case by (simp add: objectAssign_def)
next
  case (Cons p source)
  obtain a b where p: "p = (a, b)" by (cases p)
  from Cons.prems p have d: "distinct (map fst source)" and a: "map_of source a = None"
    by (auto simp add: map_of_eq_None_iff)
  have "objectAssign target (p # source) = objectAssign (AList.update a b target) source"
    by (simp add: objectAssign_def p)
  with Cons.IH [OF d, of "AList.update a b target"] a show ?case
    by (auto simp add: p update_conv' split: option.splits)
qed

text \<open>What the loop of \<open>enhanceReference\<close> assigns for one property of the result.\<close>

lemma map_of_mergeEntry:
  "map_of (mergeEntry flds key val enhanced) k =
     (if k = key \<and> isEmptyField flds key then Some val
      else if k = key \<and> key = ''note'' then Some (the (map_of flds ''note'') @ ''; '' @ val)
      else map_of enhanced k)"
  by (auto simp add: mergeEntry_def update_conv' isEmptyField_def)

lemma distinct_mergeEntry:
  "distinct (map fst enhanced) \<Longrightarrow> distinct (map fst (mergeEntry flds key val enhanced))"
  by (simp add: mergeEntry_def distinct_update)

lemma distinct_mergeResult:
  "distinct (map fst enhanced) \<Longrightarrow> distinct (map fst (mergeResult flds result enhanced))"
  by (induction result arbitrary: enhanced) (simp_all add: distinct_mergeEntry)

lemma map_of_mergeResult:
  "distinct (map fst result) \<Longrightarrow>
   map_of (mergeResult flds result enhanced) k =
     (case map_of result k of
        None \<Rightarrow> map_of enhanced k
      | Some val \<Rightarrow>
          if isEmptyField flds k then Some val
          else if k = ''note'' then Some (the (map_of flds ''note'') @ ''; '' @ val)
          else map_of enhanced k)"
proof (induction result arbitrary: enhanced)
  case Nil
  then show ?case by simp
next
  case (Cons p result)
  from Cons.prems have d: "distinct (map fst result)" and n: "map_of result (fst p) = None"
    by (auto simp add: map_of_eq_None_iff)
  from Cons.IH [OF d, of "mergeEntry flds (fst p) (snd p) enhanced"] n show ?case
    by (auto simp add: map_of_mergeEntry split: option.splits)
qed

text \<open>The two formatters assign each property once.\<close>

lemma distinct_setIf: "distinct (map fst e) \<Longrightarrow> distinct (map fst (setIf b k v e))"
  by (simp add: setIf_def distinct_update)

lemma distinct_formatSemanticScholarResult: "distinct (map fst (formatSemanticScholarResult r))"
  by (simp add: formatSemanticScholarResult_def Let_def distinct_setIf distinct_update
      split: option.splits)

lemma distinct_formatCrossrefResult: "distinct (map fst (formatCrossrefResult r))"
  by (simp add: formatCrossrefResult_def Let_def distinct_setIf distinct_update
      split: option.splits list.splits)

lemma distinct_providerResult:
  "providerResult api flds = Some result \<Longrightarrow> distinct (map fst result)"
  by (auto simp add: providerResult_def searchSemanticScholar_def searchCrossref_def Let_def
      distinct_formatSemanticScholarResult distinct_formatCrossrefResult
      split: option.splits sum.splits if_splits)

text \<open>
  The merge, for any field set: a field that passes the source's emptiness test
  (missing, empty or white space only) takes the provider's value; any other field keeps
  its value, except \<open>note\<close>, which gets the provider's note appended.
\<close>

lemma merge_frame:
  "map_of (objectAssign flds (enhanceReference api flds)) k =
     (case providerResult api flds of
        None \<Rightarrow> map_of flds k
      | Some result \<Rightarrow>
         (case map_of result k of
            None \<Rightarrow> map_of flds k
          | Some val \<Rightarrow>
              if isEmptyField flds k then Some val
              else if k = ''note'' then Some (the (map_of flds ''note'') @ ''; '' @ val)
              else map_of flds k))"
proof (cases "providerResult api flds")
  case None
  then show ?thesis by (simp add: enhanceReference_def objectAssign_def)
next
  case (Some result)
  then have d: "distinct (map fst result)" by (rule distinct_providerResult)
  have "distinct (map fst (mergeResult flds result []))"
    by (rule distinct_mergeResult) simp
  from map_of_objectAssign [OF this, of flds k] map_of_mergeResult [OF d, of flds "[]" k] Some
  show ?thesis
    by (auto simp add: enhanceReference_def split: option.splits)
qed

text \<open>
  What the extractors return is never white space only: it is empty or holds a character
  that is not white space. So for the field set of a record the source's emptiness test
  and "is empty" are the same.
\<close>

lemma trim_Nil_iff: "(trim s = []) = (\<forall>c\<in>set s. isSpace c)"
proof
  assume "trim s = []"
  then have "\<forall>c\<in>set (dropWhile isSpace s). isSpace c"
    by (simp add: trim_def dropWhile_eq_Nil_conv)
  then have "dropWhile isSpace s = []"
    using hd_dropWhile [of isSpace s] hd_in_set [of "dropWhile isSpace s"] by blast
  then show "\<forall>c\<in>set s. isSpace c"
    by (simp add: dropWhile_eq_Nil_conv)
next
  assume "\<forall>c\<in>set s. isSpace c"
  then show "trim s = []"
    by (auto simp add: trim_def dropWhile_eq_Nil_conv dest: set_dropWhileD)
qed

lemma trim_trim_nonblank: "trim s \<noteq> [] \<Longrightarrow> trim (trim s) \<noteq> []"
proof -
  assume a: "trim s \<noteq> []"
  let ?u = "dropWhile isSpace (rev (dropWhile isSpace s))"
  from a have u: "?u \<noteq> []" by (simp add: trim_def)
  then have "\<not> isSpace (hd ?u)" by (rule hd_dropWhile)
  moreover from u have "hd ?u \<in> set (trim s)" by (simp add: trim_def)
  ultimately show ?thesis by (auto simp add: trim_Nil_iff)
qed

lemma replaceChar_nonblank:
  "\<exists>x\<in>set r. \<not> isSpace x \<Longrightarrow> \<exists>c\<in>set s. \<not> isSpace c \<Longrightarrow> \<exists>c\<in>set (replaceChar a r s). \<not> isSpace c"
  by (auto simp add: replaceChar_def)

lemma bslash_not_space: "\<not> isSpace bslash"
  by (simp add: isSpace_def bslash_def)

lemma escapeLatex_nonblank:
  assumes "\<exists>c\<in>set s. \<not> isSpace c"
  shows "\<exists>c\<in>set (escapeLatex cfg s). \<not> isSpace c"
proof -
  have step: "\<And>a r t. \<exists>c\<in>set t. \<not> isSpace c \<Longrightarrow> \<exists>c\<in>set (replaceChar a (bslash # r) t). \<not> isSpace c"
    by (rule replaceChar_nonblank) (simp_all add: bslash_not_space)
  show ?thesis
    using assms by (simp add: escapeLatex_def latexSpecialChars_def step)
qed

lemma escapeLatex_Nil: "escapeLatex cfg [] = []"
  by (simp add: escapeLatex_def)

lemma extractTextContent_nonblank:
  "extractTextContent cfg e = [] \<or> trim (extractTextContent cfg e) \<noteq> []"
proof (cases "trim (collapseWs (textContent e)) = []")
  case True
  then show ?thesis by (simp add: extractTextContent_def escapeLatex_Nil)
next
  case False
  then have "trim (trim (collapseWs (textContent e))) \<noteq> []" by (rule trim_trim_nonblank)
  then have n: "\<exists>c\<in>set (trim (collapseWs (textContent e))). \<not> isSpace c"
    by (simp add: trim_Nil_iff)
  then have "\<exists>c\<in>set (escapeLatex cfg (trim (collapseWs (textContent e)))). \<not> isSpace c"
    by (rule escapeLatex_nonblank)
  with n show ?thesis by (auto simp add: extractTextContent_def Let_def trim_Nil_iff)
qed

lemma firstText_nonblank: "firstText cfg r sel = [] \<or> trim (firstText cfg r sel) \<noteq> []"
  using extractTextContent_nonblank by (auto simp add: firstText_def split: list.splits)

lemma join_nonblank:
  "\<forall>x\<in>set xs. x \<noteq> [] \<and> trim x \<noteq> [] \<Longrightarrow> join sep xs = [] \<or> trim (join sep xs) \<noteq> []"
proof (cases xs)
  case Nil
  then show ?thesis by simp
next
  case (Cons x ys)
  assume "\<forall>x\<in>set xs. x \<noteq> [] \<and> trim x \<noteq> []"
  with Cons obtain c where "c \<in> set x" "\<not> isSpace c" by (auto simp add: trim_Nil_iff)
  moreover have "set x \<subseteq> set (join sep (x # ys))" by (cases ys) auto
  ultimately show ?thesis using Cons by (auto simp add: trim_Nil_iff)
qed

lemma nonempty_texts_nonblank:
  "\<forall>x\<in>set (filter (\<lambda>t. t \<noteq> []) (map (extractTextContent cfg) es)). x \<noteq> [] \<and> trim x \<noteq> []"
  using extractTextContent_nonblank by auto

lemma isDigit_not_space: "isDigit c \<Longrightarrow> \<not> isSpace c"
  by (auto simp add: isDigit_def isSpace_def digits_def)

lemma matchFourDigits_nonblank: "matchFourDigits s = Some y \<Longrightarrow> trim y \<noteq> []"
  by (induction s rule: matchFourDigits.induct)
     (auto simp add: trim_Nil_iff isDigit_not_space split: if_splits)

lemma xmlExtractYear_nonblank: "xmlExtractYear cfg r = [] \<or> trim (xmlExtractYear cfg r) \<noteq> []"
  using matchFourDigits_nonblank by (auto simp add: xmlExtractYear_def split: list.splits option.splits)

lemma normalizePages_nonblank:
  "\<exists>c\<in>set s. \<not> isSpace c \<Longrightarrow> \<exists>c\<in>set (normalizePages prev s). \<not> isSpace c"
proof (induction s arbitrary: prev)
  case Nil
  then show ?case by simp
next
  case (Cons a s)
  show ?case
  proof (cases "(case prev of None \<Rightarrow> False | Some p \<Rightarrow> isDigit p) \<and> separatorAt (a # s)")
    case True
    have "\<not> isSpace (CHR ''-'')" by (simp add: isSpace_def)
    with True show ?thesis by auto
  next
    case False
    show ?thesis
    proof (cases "isSpace a")
      case True
      with Cons.prems have "\<exists>c\<in>set s. \<not> isSpace c" by auto
      from Cons.IH [OF this, of "Some a"] False show ?thesis by auto
    next
      case nsp: False
      with False show ?thesis by auto
    qed
  qed
qed

lemma xmlExtractPages_nonblank: "xmlExtractPages cfg r = [] \<or> trim (xmlExtractPages cfg r) \<noteq> []"
proof (cases "querySelectorAll r ''pages''")
  case Nil
  then show ?thesis by (simp add: xmlExtractPages_def)
next
  case (Cons x xs)
  show ?thesis
  proof (cases "extractTextContent cfg x = []")
    case True
    with Cons show ?thesis by (simp add: xmlExtractPages_def)
  next
    case False
    with extractTextContent_nonblank [of cfg x] have "\<exists>c\<in>set (extractTextContent cfg x). \<not> isSpace c"
      by (simp add: trim_Nil_iff)
    from normalizePages_nonblank [OF this, of None] Cons show ?thesis
      by (auto simp add: xmlExtractPages_def trim_Nil_iff)
  qed
qed

lemma extractFields_nonblank:
  "(k, v) \<in> set (extractFields cfg r) \<Longrightarrow> v = [] \<or> trim v \<noteq> []"
  using firstText_nonblank [of cfg r] xmlExtractYear_nonblank [of cfg r] xmlExtractPages_nonblank [of cfg r]
    join_nonblank [OF nonempty_texts_nonblank]
  by (auto simp add: extractFields_def extractTitle_def xmlExtractAuthors_def xmlExtractKeywords_def
      split: if_splits)

lemma extractFields_empty_test:
  "isEmptyField (extractFields cfg r) k = (\<not> truthy (map_of (extractFields cfg r) k))"
proof (cases "map_of (extractFields cfg r) k")
  case None
  then show ?thesis by (simp add: isEmptyField_def truthy_def)
next
  case (Some v)
  then have "(k, v) \<in> set (extractFields cfg r)" by (rule map_of_SomeD)
  then have "v = [] \<or> trim v \<noteq> []" by (rule extractFields_nonblank)
  with Some show ?thesis by (auto simp add: isEmptyField_def truthy_def)
qed

text \<open>
  C5. For every record and every result a provider returned for it, the merge changes
  only fields that are empty in the record's field set: a field that is not empty keeps
  its value, except \<open>note\<close>, where the provider's note is appended to the old note after
  \<open>; \<close>. \<open>merged\<close> is the field set that \<open>processRecord\<close> goes on with.
\<close>

theorem enhancement_fills_only_empty_fields:
  assumes "flds = extractFields (config c) r"
    and "merged = enhancedFields c flds"
  shows "(truthy (map_of flds k) \<and> k \<noteq> ''note'' \<longrightarrow> map_of merged k = map_of flds k) \<and>
         (map_of merged k \<noteq> map_of flds k \<longrightarrow> \<not> truthy (map_of flds k) \<or> k = ''note'') \<and>
         (truthy (map_of flds ''note'') \<and> apiManager c = Some api \<and> enableApiEnhancement (config c) \<and>
          providerResult api flds = Some result \<longrightarrow>
            map_of merged ''note'' =
              (case map_of result ''note'' of
                 Some providerNote \<Rightarrow> Some (the (map_of flds ''note'') @ ''; '' @ providerNote)
               | None \<Rightarrow> map_of flds ''note''))"
proof -
  have e: "\<And>key. isEmptyField flds key = (\<not> truthy (map_of flds key))"
    using assms(1) by (simp add: extractFields_empty_test)
  have keep: "truthy (map_of flds k) \<and> k \<noteq> ''note'' \<longrightarrow> map_of merged k = map_of flds k"
  proof (cases "apiManager c")
    case None
    with assms(2) show ?thesis by (simp add: enhancedFields_def)
  next
    case (Some a)
    show ?thesis
    proof (cases "enableApiEnhancement (config c)")
      case True
      with Some assms(2) have "merged = objectAssign flds (enhanceReference a flds)"
        by (simp add: enhancedFields_def)
      with merge_frame [of flds a k] e [of k] show ?thesis
        by (auto split: option.splits)
    next
      case False
      with Some assms(2) show ?thesis by (simp add: enhancedFields_def)
    qed
  qed
  have appended: "truthy (map_of flds ''note'') \<and> apiManager c = Some api \<and> enableApiEnhancement (config c) \<and>
          providerResult api flds = Some result \<longrightarrow>
            map_of merged ''note'' =
              (case map_of result ''note'' of
                 Some providerNote \<Rightarrow> Some (the (map_of flds ''note'') @ ''; '' @ providerNote)
               | None \<Rightarrow> map_of flds ''note'')"
  proof (intro impI, elim conjE)
    assume t: "truthy (map_of flds ''note'')" and a: "apiManager c = Some api"
      and en: "enableApiEnhancement (config c)" and p: "providerResult api flds = Some result"
    from a en assms(2) have "merged = objectAssign flds (enhanceReference api flds)"
      by (simp add: enhancedFields_def)
    with merge_frame [of flds api "''note''"] e [of "''note''"] t p
    show "map_of merged ''note'' =
              (case map_of result ''note'' of
                 Some providerNote \<Rightarrow> Some (the (map_of flds ''note'') @ ''; '' @ providerNote)
               | None \<Rightarrow> map_of flds ''note'')"
      by (auto split: option.splits)
  qed
  from keep appended show ?thesis by blast
qed

theorem enhancement_fills_only_empty_fields_witness:
  "map_of (extractFields defaultConfig notedRecord) ''title'' = Some ''A Study'' \<and>
   map_of (enhancedFields enhancingConverter (extractFields defaultConfig notedRecord)) ''title'' =
     Some ''A Study'' \<and>
   map_of (extractFields defaultConfig notedRecord) ''note'' = Some ''Read'' \<and>
   map_of (enhancedFields enhancingConverter (extractFields defaultConfig notedRecord)) ''note'' =
     Some ''Read; Cited by 7 (Semantic Scholar)'' \<and>
   map_of (extractFields defaultConfig notedRecord) ''journal'' = Some [] \<and>
   map_of (enhancedFields enhancingConverter (extractFields defaultConfig notedRecord)) ''journal'' =
     Some ''Nature''"
proof -
  let ?flds = "extractFields defaultConfig notedRecord"
  have cfg: "config enhancingConverter = defaultConfig"
    by (simp add: enhancingConverter_def newConverter_def)
  have t: "map_of ?flds ''title'' = Some ''A Study''"
    by code_simp
  have n: "map_of ?flds ''note'' = Some ''Read''"
    by code_simp
  have j: "map_of ?flds ''journal'' = Some []"
    by code_simp
  have j': "map_of (enhancedFields enhancingConverter ?flds) ''journal'' = Some ''Nature''"
    by code_simp
  have a: "apiManager enhancingConverter = Some oneCandidate"
    by (simp add: enhancingConverter_def)
  have en: "enableApiEnhancement (config enhancingConverter)"
    by (simp add: cfg defaultConfig_def)
  have p: "providerResult oneCandidate ?flds = Some (formatSemanticScholarResult citedPaper)"
    by code_simp
  have r: "map_of (formatSemanticScholarResult citedPaper) ''note'' = Some ''Cited by 7 (Semantic Scholar)''"
    by code_simp
  from enhancement_fills_only_empty_fields
    [of ?flds enhancingConverter notedRecord "enhancedFields enhancingConverter ?flds" "''title''"
      oneCandidate "formatSemanticScholarResult citedPaper"]
    t n j j' a en p r cfg
  show ?thesis
    by (simp add: truthy_def)
qed

subsection \<open>Registry keys\<close>






lemma fold_addJournal_snoc: "fold addJournal (ns @ [x]) c = addJournal x (fold addJournal ns c)"
  by simp


















end
